theory Spec2Isabelle
  imports Main "HOL-Library.Word"
begin

unbundle bit_operations_syntax

section \<open>Common types\<close>

text \<open>
  \<open>VCPU_ID\<close> is an unsigned 32-bit index (it is stored into the 32-bit \<open>op.vcpu\<close>
  field of the gdbsx domctl and narrowed with \<open>(uint16_t)\<close> for the HVM context call),
  \<open>Address\<close> a 64-bit guest address.
\<close>

type_synonym VCPU_ID = "32 word"
type_synonym Address = "64 word"

text \<open>
  The exceptions of the sources. \<open>XenException\<close> carries the error code of the failed
  library call when the throw site passes one, \<open>RuntimeError\<close> the message of a
  \<open>std::runtime_error\<close>, and \<open>BadVariantAccess\<close> is what \<open>std::get\<close> throws on
  the wrong alternative of a variant.
\<close>

datatype error =
    XenException "int option"
  | RuntimeError string
  | BadVariantAccess

section \<open>Domain.cpp: the per-vCPU pause tracker\<close>

text \<open>
  The two gdbsx domctl command codes of Xen's public \<open>domctl.h\<close>; the sources only
  compare the \<open>hypercall\<close> argument against them.
\<close>

definition XEN_DOMCTL_gdbsx_pausevcpu :: "32 word" where
  "XEN_DOMCTL_gdbsx_pausevcpu = 1001"

definition XEN_DOMCTL_gdbsx_unpausevcpu :: "32 word" where
  "XEN_DOMCTL_gdbsx_unpausevcpu = 1002"

text \<open>
  The part of a \<open>Domain\<close> object that the pause operations touch: the vector
  \<open>_vcpu_pause_state\<close>, and, as the observable effect on the control channel, the
  list of domctl hypercalls issued so far (command and \<open>op.vcpu\<close>), oldest first.
\<close>

record domain =
  vcpu_pause_state :: "bool list"
  domctl_calls :: "(32 word \<times> VCPU_ID) list"

text \<open>
  How a member function ends: it returns, it throws, or it has indexed
  \<open>_vcpu_pause_state\<close> outside the vector. \<open>std::vector<bool>::operator[]\<close> checks
  nothing, so the last case is undefined behaviour in C++; the model stops there and says
  so, rather than inventing what the read returns.
\<close>

datatype outcome = Done | Raised error | Undefined_behaviour

text \<open>
  The hypervisor control channel (\<open>XenCall::do_domctl\<close>) is a parameter: for a command
  and a vCPU it either completes (\<open>None\<close>) or raises.
\<close>

type_synonym xencall = "32 word \<Rightarrow> VCPU_ID \<Rightarrow> error option"

text \<open>
  The constructor \<open>Domain::Domain\<close>: \<open>vcpu_count = max_vcpu_id + 1\<close> in unsigned
  32-bit arithmetic, and \<open>resize\<close> of the empty vector fills it with \<open>false\<close>. No
  hypercall has been issued yet.
\<close>

definition Domain_ctor :: "32 word \<Rightarrow> domain" where
  "Domain_ctor max_vcpu_id =
     \<lparr>vcpu_pause_state = replicate (unat (max_vcpu_id + 1)) False, domctl_calls = []\<rparr>"

definition hypercall_domctl :: "xencall \<Rightarrow> 32 word \<Rightarrow> VCPU_ID \<Rightarrow> domain \<Rightarrow> outcome \<times> domain" where
  "hypercall_domctl xc command vcpu_id d =
     (let d' = d\<lparr>domctl_calls := domctl_calls d @ [(command, vcpu_id)]\<rparr>
      in case xc command vcpu_id of
           None \<Rightarrow> (Done, d')
         | Some e \<Rightarrow> (Raised e, d'))"

definition pause_unpause_vcpu ::
  "xencall \<Rightarrow> 32 word \<Rightarrow> VCPU_ID \<Rightarrow> domain \<Rightarrow> outcome \<times> domain" where
  "pause_unpause_vcpu xc hypercall vcpu_id d =
     (if hypercall = XEN_DOMCTL_gdbsx_pausevcpu then
        (if \<not> unat vcpu_id < length (vcpu_pause_state d) then (Undefined_behaviour, d)
         else if vcpu_pause_state d ! unat vcpu_id then (Done, d)
         else hypercall_domctl xc hypercall vcpu_id
                (d\<lparr>vcpu_pause_state := (vcpu_pause_state d)[unat vcpu_id := True]\<rparr>))
      else if hypercall = XEN_DOMCTL_gdbsx_unpausevcpu then
        (if \<not> unat vcpu_id < length (vcpu_pause_state d) then (Undefined_behaviour, d)
         else if vcpu_pause_state d ! unat vcpu_id then
           hypercall_domctl xc hypercall vcpu_id
             (d\<lparr>vcpu_pause_state := (vcpu_pause_state d)[unat vcpu_id := False]\<rparr>)
         else (Done, d))
      else (Raised (RuntimeError ''Unknown domctl!''), d))"

definition pause_vcpu :: "xencall \<Rightarrow> VCPU_ID \<Rightarrow> domain \<Rightarrow> outcome \<times> domain" where
  "pause_vcpu xc vcpu_id d = pause_unpause_vcpu xc XEN_DOMCTL_gdbsx_pausevcpu vcpu_id d"

definition unpause_vcpu :: "xencall \<Rightarrow> VCPU_ID \<Rightarrow> domain \<Rightarrow> outcome \<times> domain" where
  "unpause_vcpu xc vcpu_id d = pause_unpause_vcpu xc XEN_DOMCTL_gdbsx_unpausevcpu vcpu_id d"

text \<open>
  The sibling operation \<open>set_debugging\<close>, which does check the vCPU index against
  \<open>get_dominfo().max_vcpu_id\<close> before it calls the library; \<open>xc_domain_setdebugging\<close>
  is a parameter returning the library's status.
\<close>

definition set_debugging :: "32 word \<Rightarrow> (bool \<Rightarrow> int) \<Rightarrow> bool \<Rightarrow> VCPU_ID \<Rightarrow> outcome" where
  "set_debugging max_vcpu_id xc_domain_setdebugging enable vcpu_id =
     (if vcpu_id > max_vcpu_id then Raised (XenException None)
      else (let err = xc_domain_setdebugging enable
            in if err \<noteq> 0 then Raised (XenException (Some (- err))) else Done))"

text \<open>
  What "redundant" means for the hypercalls issued. A hypercall for a vCPU is
  redundant when it repeats the one issued before it for that vCPU: a pause after a
  pause, an unpause after an unpause, or an unpause before any pause.
  \<open>replay_calls\<close> runs the commands issued for one vCPU, oldest first, from the
  state \<open>paused\<close>, and is \<open>None\<close> as soon as one of them is redundant.
  \<open>no_redundant_calls\<close> says of a \<open>Domain\<close> object that, for each vCPU it tracks,
  the hypercalls issued so far alternate, starting with a pause, and that the tracked
  bit tells which kind came last. Whether the hypervisor carried a call out is not
  part of this.
\<close>

fun replay_calls :: "bool \<Rightarrow> 32 word list \<Rightarrow> bool option" where
  "replay_calls paused [] = Some paused"
| "replay_calls paused (c # cmds) =
     (if c = XEN_DOMCTL_gdbsx_pausevcpu \<and> \<not> paused then replay_calls True cmds
      else if c = XEN_DOMCTL_gdbsx_unpausevcpu \<and> paused then replay_calls False cmds
      else None)"

definition calls_for :: "nat \<Rightarrow> domain \<Rightarrow> 32 word list" where
  "calls_for i d = map fst (filter (\<lambda>(c, u). unat u = i) (domctl_calls d))"

definition no_redundant_calls :: "domain \<Rightarrow> bool" where
  "no_redundant_calls d \<longleftrightarrow>
     (\<forall>i < length (vcpu_pause_state d).
        replay_calls False (calls_for i d) = Some (vcpu_pause_state d ! i))"

section \<open>Domain.cpp: the software page-table walk\<close>

definition CR0_PG :: "64 word" where "CR0_PG = 0x80000000"
definition CR4_PAE :: "64 word" where "CR4_PAE = 0x2"
definition PTE_PSE :: "64 word" where "PTE_PSE = 0x80"
definition EFER_LMA :: "64 word" where "EFER_LMA = 0x400"

text \<open>The x86 page constants of \<open>xenctrl.h\<close>.\<close>

definition XC_PAGE_SHIFT :: nat where "XC_PAGE_SHIFT = 12"
definition XC_PAGE_SIZE :: "64 word" where "XC_PAGE_SIZE = push_bit XC_PAGE_SHIFT 1"

text \<open>
  \<open>xc_ffs8\<close>: the loop over \<open>i = 0 .. 7\<close> that returns \<open>i + 1\<close> at the first set
  bit and \<open>0\<close> when there is none. The test \<open>x & (1u << i)\<close> is done on 32 bits.
\<close>

function xc_ffs8_from :: "nat \<Rightarrow> 8 word \<Rightarrow> int" where
  "xc_ffs8_from i x =
     (if i < 8 then
        (if (ucast x :: 32 word) AND push_bit i 1 \<noteq> 0 then int i + 1
         else xc_ffs8_from (i + 1) x)
      else 0)"
  by pat_completeness auto
termination
  by (relation "measure (\<lambda>(i, x). 8 - i)") auto

declare xc_ffs8_from.simps [simp del]

definition xc_ffs8 :: "8 word \<Rightarrow> int" where
  "xc_ffs8 x = xc_ffs8_from 0 x"

definition xc_ffs16 :: "16 word \<Rightarrow> int" where
  "xc_ffs16 x =
     (let h = (ucast (drop_bit 8 x) :: 8 word); l = (ucast x :: 8 word)
      in if l \<noteq> 0 then xc_ffs8 l else if h \<noteq> 0 then xc_ffs8 h + 8 else 0)"

definition xc_ffs32 :: "32 word \<Rightarrow> int" where
  "xc_ffs32 x =
     (let h = (ucast (drop_bit 16 x) :: 16 word); l = (ucast x :: 16 word)
      in if l \<noteq> 0 then xc_ffs16 l else if h \<noteq> 0 then xc_ffs16 h + 16 else 0)"

definition xc_ffs64 :: "64 word \<Rightarrow> int" where
  "xc_ffs64 x =
     (let h = (ucast (drop_bit 32 x) :: 32 word); l = (ucast x :: 32 word)
      in if l \<noteq> 0 then xc_ffs32 l else if h \<noteq> 0 then xc_ffs32 h + 32 else 0)"

text \<open>
  What \<open>get_page_table_entry\<close> reads from its surroundings:
  \<^item> \<open>cpu_context\<close>: the registers \<open>cr0\<close>, \<open>cr3\<close>, \<open>cr4\<close>, \<open>msr_efer\<close> (in this
    order) of \<open>get_cpu_context(vcpu_id)\<close>, or the exception that call raises; the
    walk combines them with 64-bit constants, so they are taken at 64 bits;
  \<^item> \<open>dominfo_hvm\<close>: \<open>get_dominfo().hvm\<close>;
  \<^item> \<open>get_word_size\<close>: the result of the member function of that name, or its exception;
  \<^item> \<open>map_memory\<close>: the foreign-memory mapping of the page at a guest physical
    address, as the bytes behind \<open>map.get()\<close> indexed by offset, or the exception
    that the mapping service raises when it cannot map the page (its body,
    \<open>XenForeignMemory::map\<close>, is not among the sources; the walk catches nothing);
  \<^item> \<open>pte_uninit\<close>: whatever the local variable \<open>pte\<close> holds before the first
    \<open>memcpy\<close>; the declaration \<open>uint64_t paddr, mask, pte;\<close> does not initialise it.
\<close>

record pt_env =
  cpu_context :: "VCPU_ID \<Rightarrow> error + (64 word \<times> 64 word \<times> 64 word \<times> 64 word)"
  dominfo_hvm :: bool
  get_word_size :: "error + int"
  map_memory :: "Address \<Rightarrow> error + (nat \<Rightarrow> 8 word)"
  pte_uninit :: "64 word"

text \<open>
  What one run of the walk did to guest memory, in order: a mapping that failed, or an
  entry fetched at a level from a physical address (what \<open>pte\<close> holds after the
  \<open>memcpy\<close>).
\<close>

datatype walk_event = Map_failed Address | Fetched nat Address "64 word"

text \<open>
  \<open>memcpy(&pte, src, size)\<close> on a little-endian host: the low \<open>size\<close> bytes of
  \<open>pte\<close> are replaced, the bytes above them stay.
\<close>

fun le_bytes :: "(nat \<Rightarrow> 8 word) \<Rightarrow> nat \<Rightarrow> nat \<Rightarrow> 64 word" where
  "le_bytes m off 0 = 0"
| "le_bytes m off (Suc n) = ucast (m off) OR push_bit 8 (le_bytes m (Suc off) n)"

definition memcpy_pte :: "64 word \<Rightarrow> (nat \<Rightarrow> 8 word) \<Rightarrow> nat \<Rightarrow> nat \<Rightarrow> 64 word" where
  "memcpy_pte pte m off sz = (pte AND NOT (mask (8 * sz))) OR le_bytes m off sz"

text \<open>
  The \<open>for\<close> loop, by recursion on \<open>level\<close>: \<open>walk_pagetables env pt_levels vaddr sz
  level paddr msk pte\<close> runs the iterations \<open>level, level - 1, .., 1\<close> and then
  \<open>return pte\<close>; \<open>sz\<close> and \<open>msk\<close> are the locals \<open>size\<close> and \<open>mask\<close> of the source.
  The shift count \<open>xc_ffs64(mask) - 1\<close> is an \<open>int\<close>; it is negative only for a
  mask of 0, which the masks of a walk never are.
\<close>

fun walk_pagetables ::
  "pt_env \<Rightarrow> nat \<Rightarrow> Address \<Rightarrow> nat \<Rightarrow> nat \<Rightarrow> Address \<Rightarrow> 64 word \<Rightarrow> 64 word
   \<Rightarrow> walk_event list \<times> (error + 64 word option)" where
  "walk_pagetables env pt_levels vaddr sz 0 paddr msk pte = ([], Inr (Some pte))"
| "walk_pagetables env pt_levels vaddr sz (Suc n) paddr msk pte =
     (let level = Suc n;
          paddr1 = paddr + drop_bit (nat (xc_ffs64 msk - 1)) (vaddr AND msk) * of_nat sz
      in case map_memory env paddr1 of
           Inl err \<Rightarrow> ([Map_failed paddr1], Inl err)
         | Inr m \<Rightarrow>
             (let pte1 = memcpy_pte pte m (unat (paddr1 AND (XC_PAGE_SIZE - 1))) sz
              in if pte1 AND 1 = 0 then ([Fetched level paddr1 pte1], Inr None)
                 else
                   (let paddr2 = pte1 AND 0x000ffffffffff000
                    in if (level = 2 \<or> (level = 3 \<and> pt_levels = 4)) \<and> pte1 AND PTE_PSE \<noteq> 0
                       then
                         (let mask1 = drop_bit 1 (msk XOR NOT (- msk))
                          in ([Fetched level paddr1 pte1],
                              Inr (Some (drop_bit XC_PAGE_SHIFT
                                           ((paddr2 AND NOT mask1) OR (vaddr AND mask1))))))
                       else
                         (let (evs, r) = walk_pagetables env pt_levels vaddr sz n paddr2
                                           (drop_bit (if pt_levels = 2 then 10 else 9) msk) pte1
                          in (Fetched level paddr1 pte1 # evs, r)))))"

text \<open>
  The paging mode (lines 156 to 169): either the early return of an HVM guest without
  paging, or the number of levels and the address of the top table.
\<close>

definition paging_mode ::
  "pt_env \<Rightarrow> Address \<Rightarrow> 64 word \<Rightarrow> 64 word \<Rightarrow> 64 word \<Rightarrow> 64 word
   \<Rightarrow> (error + 64 word option) + (nat \<times> Address)" where
  "paging_mode env vaddr cr0 cr3 cr4 msr_efer =
     (if dominfo_hvm env then
        (if cr0 AND CR0_PG = 0 then Inl (Inr (Some (drop_bit XC_PAGE_SHIFT vaddr)))
         else
           (let pt_levels = (if msr_efer AND EFER_LMA \<noteq> 0 then 4
                             else if cr4 AND CR4_PAE \<noteq> 0 then 3 else 2 :: nat)
            in Inr (pt_levels, cr3 AND (if pt_levels = 3 then NOT 0x1f else NOT 0xfff))))
      else
        (case get_word_size env of
           Inl e \<Rightarrow> Inl (Inl e)
         | Inr w \<Rightarrow>
             (if w = 8 then Inr (4, cr3)
              else Inr (3, push_bit XC_PAGE_SHIFT
                             (drop_bit XC_PAGE_SHIFT cr3 OR push_bit 20 cr3)))))"

definition get_page_table_entry ::
  "pt_env \<Rightarrow> Address \<Rightarrow> VCPU_ID \<Rightarrow> walk_event list \<times> (error + 64 word option)" where
  "get_page_table_entry env vaddr vcpu_id =
     (case cpu_context env vcpu_id of
        Inl e \<Rightarrow> ([], Inl e)
      | Inr (cr0, cr3, cr4, msr_efer) \<Rightarrow>
          (case paging_mode env vaddr cr0 cr3 cr4 msr_efer of
             Inl r \<Rightarrow> ([], r)
           | Inr (pt_levels, paddr) \<Rightarrow>
               (let vaddr1 = (if pt_levels = 4 then vaddr AND 0x0000ffffffffffff
                              else vaddr AND 0x00000000ffffffff);
                    msk = (if pt_levels = 4 then 0x0000ff8000000000
                            else if pt_levels = 3 then 0x0000007fc0000000
                            else 0x00000000ffc00000);
                    sz = (if pt_levels = 2 then 4 else 8)
                in walk_pagetables env pt_levels vaddr1 sz pt_levels paddr msk
                     (pte_uninit env))))"

section \<open>DomainHVM.cpp: register contexts of an HVM guest\<close>

text \<open>
  The 64-bit register file \<open>RegistersX86_64\<close>: the registers that the two
  conversions access with \<open>regs.get<..>()\<close>, each at the width of the
  \<open>hvm_hw_cpu\<close> field it is copied from and to; the registers of the class that the
  conversions never name are the extension of the record.
\<close>

record RegistersX86_64 =
  rax :: "64 word"
  rbx :: "64 word"
  rcx :: "64 word"
  rdx :: "64 word"
  rsp :: "64 word"
  rbp :: "64 word"
  rsi :: "64 word"
  rdi :: "64 word"
  r8 :: "64 word"
  r9 :: "64 word"
  r10 :: "64 word"
  r11 :: "64 word"
  r12 :: "64 word"
  r13 :: "64 word"
  r14 :: "64 word"
  r15 :: "64 word"
  rip :: "64 word"
  rflags :: "64 word"
  fs :: "64 word"
  gs :: "64 word"
  cs :: "64 word"
  ds :: "64 word"
  ss :: "64 word"
  cr3 :: "64 word"

text \<open>
  Xen's \<open>struct hvm_hw_cpu\<close>: the fields the conversions assign, some of those they
  do not (\<open>cr0\<close>, \<open>cr2\<close>, \<open>cr4\<close>, \<open>es_base\<close>, \<open>shadow_gs\<close>, \<open>msr_efer\<close>), and
  the remainder of the structure as the extension of the record.
\<close>

record hvm_hw_cpu =
  rax :: "64 word"
  rbx :: "64 word"
  rcx :: "64 word"
  rdx :: "64 word"
  rbp :: "64 word"
  rsi :: "64 word"
  rdi :: "64 word"
  rsp :: "64 word"
  r8 :: "64 word"
  r9 :: "64 word"
  r10 :: "64 word"
  r11 :: "64 word"
  r12 :: "64 word"
  r13 :: "64 word"
  r14 :: "64 word"
  r15 :: "64 word"
  rip :: "64 word"
  rflags :: "64 word"
  cr0 :: "64 word"
  cr2 :: "64 word"
  cr3 :: "64 word"
  cr4 :: "64 word"
  cs_base :: "64 word"
  ds_base :: "64 word"
  es_base :: "64 word"
  fs_base :: "64 word"
  gs_base :: "64 word"
  ss_base :: "64 word"
  shadow_gs :: "64 word"
  msr_efer :: "64 word"

text \<open>
  \<open>RegistersX86Any\<close> is a \<open>std::variant\<close> of the 32-bit and the 64-bit register
  file; nothing in these sources looks into the 32-bit one.
\<close>

datatype ('a, 'b) RegistersX86Any = Any_X86_32 'a | Any_X86_64 'b

text \<open>
  The control channel of an HVM domain: \<open>xc_domain_hvm_getcontext_partial\<close> for the
  CPU save record of a vCPU gives a status and the buffer it filled. The calls made
  are recorded in order.
\<close>

record 'h hvm_env =
  xc_domain_hvm_getcontext_partial :: "16 word \<Rightarrow> int \<times> 'h hvm_hw_cpu_scheme"

datatype xenctrl_call = Hvm_getcontext_partial "16 word"

definition get_cpu_context_raw ::
  "'h hvm_env \<Rightarrow> VCPU_ID \<Rightarrow> xenctrl_call list \<times> (error + 'h hvm_hw_cpu_scheme)" where
  "get_cpu_context_raw env vcpu_id =
     (let (err, context) = xc_domain_hvm_getcontext_partial env (ucast vcpu_id)
      in ([Hvm_getcontext_partial (ucast vcpu_id)],
          if err \<noteq> 0 then Inl (XenException (Some (- err))) else Inr context))"

definition set_cpu_context_raw :: "'h hvm_hw_cpu_scheme \<Rightarrow> VCPU_ID \<Rightarrow> error + unit" where
  "set_cpu_context_raw context vcpu_id = Inl (RuntimeError ''Not yet implemented!'')"

text \<open>
  \<open>convert_regs_from_hvm\<close> starts from the default-constructed register file
  \<open>RegistersX86_64 regs;\<close>, here the argument \<open>regs\<close>.
\<close>

definition convert_regs_from_hvm ::
  "'r RegistersX86_64_scheme \<Rightarrow> 'h hvm_hw_cpu_scheme
   \<Rightarrow> ('a, 'r RegistersX86_64_scheme) RegistersX86Any" where
  "convert_regs_from_hvm regs hvm =
     Any_X86_64 (regs
       \<lparr>RegistersX86_64.rax := hvm_hw_cpu.rax hvm,
        RegistersX86_64.rbx := hvm_hw_cpu.rbx hvm,
        RegistersX86_64.rcx := hvm_hw_cpu.rcx hvm,
        RegistersX86_64.rdx := hvm_hw_cpu.rdx hvm,
        RegistersX86_64.rsp := hvm_hw_cpu.rsp hvm,
        RegistersX86_64.rbp := hvm_hw_cpu.rbp hvm,
        RegistersX86_64.rsi := hvm_hw_cpu.rsi hvm,
        RegistersX86_64.rdi := hvm_hw_cpu.rdi hvm,
        RegistersX86_64.r8 := hvm_hw_cpu.r8 hvm,
        RegistersX86_64.r9 := hvm_hw_cpu.r9 hvm,
        RegistersX86_64.r10 := hvm_hw_cpu.r10 hvm,
        RegistersX86_64.r11 := hvm_hw_cpu.r11 hvm,
        RegistersX86_64.r12 := hvm_hw_cpu.r12 hvm,
        RegistersX86_64.r13 := hvm_hw_cpu.r13 hvm,
        RegistersX86_64.r14 := hvm_hw_cpu.r14 hvm,
        RegistersX86_64.r15 := hvm_hw_cpu.r15 hvm,
        RegistersX86_64.rip := hvm_hw_cpu.rip hvm,
        RegistersX86_64.rflags := hvm_hw_cpu.rflags hvm,
        RegistersX86_64.fs := hvm_hw_cpu.fs_base hvm,
        RegistersX86_64.gs := hvm_hw_cpu.gs_base hvm,
        RegistersX86_64.cs := hvm_hw_cpu.cs_base hvm,
        RegistersX86_64.ds := hvm_hw_cpu.ds_base hvm,
        RegistersX86_64.ss := hvm_hw_cpu.ss_base hvm,
        RegistersX86_64.cr3 := hvm_hw_cpu.cr3 hvm\<rparr>)"

definition convert_regs_to_hvm ::
  "'r RegistersX86_64_scheme \<Rightarrow> 'h hvm_hw_cpu_scheme \<Rightarrow> 'h hvm_hw_cpu_scheme" where
  "convert_regs_to_hvm regs hvm =
     hvm
       \<lparr>hvm_hw_cpu.rax := RegistersX86_64.rax regs,
        hvm_hw_cpu.rbx := RegistersX86_64.rbx regs,
        hvm_hw_cpu.rcx := RegistersX86_64.rcx regs,
        hvm_hw_cpu.rdx := RegistersX86_64.rdx regs,
        hvm_hw_cpu.rsp := RegistersX86_64.rsp regs,
        hvm_hw_cpu.rbp := RegistersX86_64.rbp regs,
        hvm_hw_cpu.rsi := RegistersX86_64.rsi regs,
        hvm_hw_cpu.rdi := RegistersX86_64.rdi regs,
        hvm_hw_cpu.r8 := RegistersX86_64.r8 regs,
        hvm_hw_cpu.r9 := RegistersX86_64.r9 regs,
        hvm_hw_cpu.r10 := RegistersX86_64.r10 regs,
        hvm_hw_cpu.r11 := RegistersX86_64.r11 regs,
        hvm_hw_cpu.r12 := RegistersX86_64.r12 regs,
        hvm_hw_cpu.r13 := RegistersX86_64.r13 regs,
        hvm_hw_cpu.r14 := RegistersX86_64.r14 regs,
        hvm_hw_cpu.r15 := RegistersX86_64.r15 regs,
        hvm_hw_cpu.rip := RegistersX86_64.rip regs,
        hvm_hw_cpu.rflags := RegistersX86_64.rflags regs,
        hvm_hw_cpu.fs_base := RegistersX86_64.fs regs,
        hvm_hw_cpu.gs_base := RegistersX86_64.gs regs,
        hvm_hw_cpu.cs_base := RegistersX86_64.cs regs,
        hvm_hw_cpu.ds_base := RegistersX86_64.ds regs,
        hvm_hw_cpu.ss_base := RegistersX86_64.ss regs,
        hvm_hw_cpu.cr3 := RegistersX86_64.cr3 regs\<rparr>"

definition get_cpu_context ::
  "'h hvm_env \<Rightarrow> 'r RegistersX86_64_scheme \<Rightarrow> VCPU_ID
   \<Rightarrow> xenctrl_call list \<times> (error + ('a, 'r RegistersX86_64_scheme) RegistersX86Any)" where
  "get_cpu_context env regs_default vcpu_id =
     (case get_cpu_context_raw env vcpu_id of
        (calls, Inl e) \<Rightarrow> (calls, Inl e)
      | (calls, Inr hvm) \<Rightarrow> (calls, Inr (convert_regs_from_hvm regs_default hvm)))"

text \<open>
  \<open>set_cpu_context\<close> up to line 36: the alternative is taken out of the variant with
  \<open>std::get\<close>, the raw context is read, and \<open>new_context\<close> is built from both.
\<close>

definition new_context ::
  "'h hvm_env \<Rightarrow> ('a, 'r RegistersX86_64_scheme) RegistersX86Any \<Rightarrow> VCPU_ID
   \<Rightarrow> xenctrl_call list \<times> (error + 'h hvm_hw_cpu_scheme)" where
  "new_context env regs vcpu_id =
     (case regs of
        Any_X86_32 regs32 \<Rightarrow> ([], Inl BadVariantAccess)
      | Any_X86_64 regs64 \<Rightarrow>
          (case get_cpu_context_raw env vcpu_id of
             (calls, Inl e) \<Rightarrow> (calls, Inl e)
           | (calls, Inr old_context) \<Rightarrow>
               (calls, Inr (convert_regs_to_hvm regs64 old_context))))"

text \<open>
  The rest of \<open>set_cpu_context\<close>: the second \<open>xc_domain_hvm_getcontext_partial\<close>
  is given the address of \<open>new_context\<close> as its buffer, so what reaches
  \<open>set_cpu_context_raw\<close> is what that call stored there.
\<close>

definition set_cpu_context ::
  "'h hvm_env \<Rightarrow> ('a, 'r RegistersX86_64_scheme) RegistersX86Any \<Rightarrow> VCPU_ID
   \<Rightarrow> xenctrl_call list \<times> (error + unit)" where
  "set_cpu_context env regs vcpu_id =
     (case new_context env regs vcpu_id of
        (calls, Inl e) \<Rightarrow> (calls, Inl e)
      | (calls, Inr new_context0) \<Rightarrow>
          (let (err, new_context1) = xc_domain_hvm_getcontext_partial env (ucast vcpu_id);
               calls1 = calls @ [Hvm_getcontext_partial (ucast vcpu_id)]
           in if err \<noteq> 0 then (calls1, Inl (XenException (Some (- err))))
              else (calls1, set_cpu_context_raw new_context1 vcpu_id)))"

section \<open>HVMMonitor.cpp: the VM-event monitor\<close>

definition X86_TRAP_INT3 :: int where "X86_TRAP_INT3 = 3"

text \<open>The constants of Xen's public \<open>vm_event.h\<close> that \<open>read_events\<close> names.\<close>

definition VM_EVENT_INTERFACE_VERSION :: "32 word" where "VM_EVENT_INTERFACE_VERSION = 3"
definition VM_EVENT_FLAG_VCPU_PAUSED :: "32 word" where "VM_EVENT_FLAG_VCPU_PAUSED = 1"
definition VM_EVENT_REASON_MEM_ACCESS :: "32 word" where "VM_EVENT_REASON_MEM_ACCESS = 1"
definition VM_EVENT_REASON_SOFTWARE_BREAKPOINT :: "32 word" where
  "VM_EVENT_REASON_SOFTWARE_BREAKPOINT = 6"
definition VM_EVENT_REASON_SINGLESTEP :: "32 word" where "VM_EVENT_REASON_SINGLESTEP = 7"
definition VM_EVENT_REASON_DEBUG_EXCEPTION :: "32 word" where
  "VM_EVENT_REASON_DEBUG_EXCEPTION = 9"
definition VM_EVENT_REASON_CPUID :: "32 word" where "VM_EVENT_REASON_CPUID = 10"
definition VM_EVENT_REASON_PRIVILEGED_CALL :: "32 word" where
  "VM_EVENT_REASON_PRIVILEGED_CALL = 11"
definition VM_EVENT_REASON_DESCRIPTOR_ACCESS :: "32 word" where
  "VM_EVENT_REASON_DESCRIPTOR_ACCESS = 13"

text \<open>
  \<open>vm_event_request_t\<close> and \<open>vm_event_response_t\<close> are one structure: the header
  fields and, of the payload union \<open>u\<close>, the \<open>software_breakpoint\<close> member, the only
  one \<open>read_events\<close> reads.
\<close>

record vm_event_st =
  version :: "32 word"
  flags :: "32 word"
  reason :: "32 word"
  vcpu_id :: "32 word"
  altp2m_idx :: "16 word"
  u_software_breakpoint_gfn :: "64 word"
  u_software_breakpoint_insn_length :: "32 word"
  u_software_breakpoint_type :: "8 word"

text \<open>What \<open>memset(&rsp, 0, sizeof(rsp))\<close> leaves.\<close>

definition vm_event_zero :: vm_event_st where
  "vm_event_zero =
     \<lparr>version = 0, flags = 0, reason = 0, vcpu_id = 0, altp2m_idx = 0,
      u_software_breakpoint_gfn = 0, u_software_breakpoint_insn_length = 0,
      u_software_breakpoint_type = 0\<rparr>"

text \<open>
  The effects of the monitor on the outside, in the order they happen: the call
  \<open>inject_event(_domain, vcpu, vector, type, error_code, insn_len, extra)\<close> of the device
  model, the call of the registered callback with a request, and a response put on
  the ring.
\<close>

datatype monitor_effect =
    Inject_event "32 word" int "8 word" int "32 word" int
  | On_software_breakpoint vm_event_st
  | Put_response vm_event_st

text \<open>
  The monitor: the private back ring (\<open>req_cons\<close>, \<open>rsp_prod_pvt\<close>, \<open>nr_ents\<close>),
  the shared ring page (\<open>req_prod\<close>, \<open>req_event\<close>, \<open>rsp_prod\<close> and the slots),
  whether \<open>_on_software_breakpoint\<close> holds a callable, and the effects so far.
\<close>

record monitor =
  req_cons :: "32 word"
  rsp_prod_pvt :: "32 word"
  nr_ents :: nat
  sring_req_prod :: "32 word"
  sring_req_event :: "32 word"
  sring_rsp_prod :: "32 word"
  sring_ring :: "nat \<Rightarrow> vm_event_st"
  on_software_breakpoint :: bool
  effects :: "monitor_effect list"

text \<open>
  Modelled from the spec: the ring macros of \<open>ring.h\<close>, which is not among the
  sources. \<open>RING_HAS_UNCONSUMED_REQUESTS\<close> is true iff the consumed cursor has not
  caught up to the producer's published index; \<open>RING_GET_REQUEST\<close> and
  \<open>RING_GET_RESPONSE\<close> are the entry at a cursor, that is the slot at the cursor
  modulo the number of entries; \<open>RING_PUSH_RESPONSES\<close> publishes the private
  response cursor.
\<close>

definition RING_HAS_UNCONSUMED_REQUESTS :: "monitor \<Rightarrow> bool" where
  "RING_HAS_UNCONSUMED_REQUESTS m \<longleftrightarrow> req_cons m \<noteq> sring_req_prod m"

definition RING_SLOT :: "monitor \<Rightarrow> 32 word \<Rightarrow> nat" where
  "RING_SLOT m idx = unat idx mod nr_ents m"

definition RING_GET_REQUEST :: "monitor \<Rightarrow> 32 word \<Rightarrow> vm_event_st" where
  "RING_GET_REQUEST m idx = sring_ring m (RING_SLOT m idx)"

definition RING_PUSH_RESPONSES :: "monitor \<Rightarrow> monitor" where
  "RING_PUSH_RESPONSES m = m\<lparr>sring_rsp_prod := rsp_prod_pvt m\<rparr>"

definition get_request :: "monitor \<Rightarrow> vm_event_st \<times> monitor" where
  "get_request m =
     (let req = RING_GET_REQUEST m (req_cons m);
          req_cons1 = req_cons m + 1
      in (req, m\<lparr>req_cons := req_cons1, sring_req_event := req_cons1 + 1\<rparr>))"

definition put_response :: "vm_event_st \<Rightarrow> monitor \<Rightarrow> monitor" where
  "put_response resp m =
     (let rsp_prod = rsp_prod_pvt m;
          m1 = m\<lparr>sring_ring := (sring_ring m)(RING_SLOT m rsp_prod := resp),
                 effects := effects m @ [Put_response resp]\<rparr>
      in RING_PUSH_RESPONSES (m1\<lparr>rsp_prod_pvt := rsp_prod + 1\<rparr>))"

definition inject_event ::
  "32 word \<Rightarrow> int \<Rightarrow> 8 word \<Rightarrow> int \<Rightarrow> 32 word \<Rightarrow> int \<Rightarrow> monitor \<Rightarrow> monitor" where
  "inject_event vcpu vector type error_code insn_len extra m =
     m\<lparr>effects := effects m @ [Inject_event vcpu vector type error_code insn_len extra]\<rparr>"

definition call_on_software_breakpoint :: "vm_event_st \<Rightarrow> monitor \<Rightarrow> monitor" where
  "call_on_software_breakpoint req m = m\<lparr>effects := effects m @ [On_software_breakpoint req]\<rparr>"

text \<open>The response that the loop body prepares before it looks at the version.\<close>

definition prepare_response :: "vm_event_st \<Rightarrow> vm_event_st" where
  "prepare_response req =
     vm_event_zero
       \<lparr>version := VM_EVENT_INTERFACE_VERSION,
        vcpu_id := vcpu_id req,
        flags := flags req AND VM_EVENT_FLAG_VCPU_PAUSED,
        reason := reason req\<rparr>"

text \<open>The \<open>switch\<close> on the reason, label by label.\<close>

definition dispatch :: "vm_event_st \<Rightarrow> monitor \<Rightarrow> monitor" where
  "dispatch req m =
     (if reason req = VM_EVENT_REASON_MEM_ACCESS then m
      else if reason req = VM_EVENT_REASON_SOFTWARE_BREAKPOINT then
        (let m1 = inject_event (vcpu_id req) X86_TRAP_INT3 (u_software_breakpoint_type req)
                    (- 1) (u_software_breakpoint_insn_length req) 0 m
         in if on_software_breakpoint m1 then call_on_software_breakpoint req m1 else m1)
      else if reason req = VM_EVENT_REASON_PRIVILEGED_CALL then m
      else if reason req = VM_EVENT_REASON_SINGLESTEP then m
      else if reason req = VM_EVENT_REASON_DEBUG_EXCEPTION then m
      else if reason req = VM_EVENT_REASON_CPUID then m
      else if reason req = VM_EVENT_REASON_DESCRIPTOR_ACCESS then m
      else m)"

text \<open>One iteration of the \<open>while\<close> loop of \<open>read_events\<close>.\<close>

definition read_events_body :: "monitor \<Rightarrow> monitor" where
  "read_events_body m =
     (let (req, m1) = get_request m;
          resp = prepare_response req
      in if version req \<noteq> VM_EVENT_INTERFACE_VERSION then m1
         else put_response resp (dispatch req m1))"

lemma read_events_body_cursors:
  "req_cons (read_events_body m) = req_cons m + 1
   \<and> sring_req_prod (read_events_body m) = sring_req_prod m"
  by (simp add: read_events_body_def get_request_def put_response_def dispatch_def
      inject_event_def call_on_software_breakpoint_def RING_PUSH_RESPONSES_def Let_def)

lemma pending_decreases:
  fixes p c :: "32 word"
  assumes "c \<noteq> p"
  shows "unat (p - (c + 1)) < unat (p - c)"
proof -
  have nz: "p - c \<noteq> 0" using assms by simp
  then have "unat (p - c) \<noteq> 0" by (simp add: unat_eq_0)
  then have less: "unat (p - c - 1) < unat (p - c)"
    using nz by (simp add: unat_minus_one)
  have eq: "p - (c + 1) = p - c - 1" by simp
  show ?thesis unfolding eq by (rule less)
qed

function read_events :: "monitor \<Rightarrow> monitor" where
  "read_events m =
     (if RING_HAS_UNCONSUMED_REQUESTS m then read_events (read_events_body m) else m)"
  by pat_completeness auto
termination
  by (relation "measure (\<lambda>m. unat (sring_req_prod m - req_cons m))")
     (simp_all add: RING_HAS_UNCONSUMED_REQUESTS_def read_events_body_cursors pending_decreases)

declare read_events.simps [simp del]

section \<open>Example guests\<close>

text \<open>
  A small guest physical memory holding a four-level page table: the top table in
  frame 1, its entry 0 pointing to frame 2; there entry 1 points to frame 3 and entry 2
  to frame 9; in frame 3, entry 3 is a large page at \<open>0xa00000\<close>, entry 4 points to
  frame 4 and the other entries are empty; in frame 4, entry 5 maps frame \<open>0xbeef\<close>.
  Frames 1 to 4 can be mapped; mapping any other frame raises (\<open>EFAULT\<close>). The
  same bytes of frame 3 serve as the page directory of a two-level guest. The four
  guests differ in their registers and kind: long mode, two-level paging, paging
  off, and paravirtualised with \<open>cr0 = 0\<close>.
\<close>

definition guest_bytes :: "(64 word \<times> 8 word) list" where
  "guest_bytes =
     [(0x1000, 0x03), (0x1001, 0x20),
      (0x2008, 0x03), (0x2009, 0x30),
      (0x2010, 0x03), (0x2011, 0x90),
      (0x3018, 0x83), (0x301a, 0xa0),
      (0x3020, 0x03), (0x3021, 0x40),
      (0x4028, 0x03), (0x4029, 0xf0), (0x402a, 0xee), (0x402b, 0x0b)]"

definition guest_map_memory :: "Address \<Rightarrow> error + (nat \<Rightarrow> 8 word)" where
  "guest_map_memory a =
     (if drop_bit 12 a \<in> {1, 2, 3, 4}
      then Inr (\<lambda>off. case map_of guest_bytes (push_bit 12 (drop_bit 12 a) + of_nat off) of
                         Some b \<Rightarrow> b | None \<Rightarrow> 0)
      else Inl (XenException (Some 14)))"

definition guest_long_mode :: pt_env where
  "guest_long_mode =
     \<lparr>cpu_context = (\<lambda>v. Inr (0x80000001, 0x1000, 0x20, 0x500)),
      dominfo_hvm = True, get_word_size = Inr 8,
      map_memory = guest_map_memory, pte_uninit = 0\<rparr>"

definition guest_2level :: pt_env where
  "guest_2level =
     \<lparr>cpu_context = (\<lambda>v. Inr (0x80000001, 0x3000, 0, 0)),
      dominfo_hvm = True, get_word_size = Inr 4,
      map_memory = guest_map_memory, pte_uninit = 0\<rparr>"

definition guest_no_paging :: pt_env where
  "guest_no_paging =
     \<lparr>cpu_context = (\<lambda>v. Inr (0x00000011, 0x1000, 0, 0)),
      dominfo_hvm = True, get_word_size = Inr 4,
      map_memory = guest_map_memory, pte_uninit = 0\<rparr>"

definition guest_pv :: pt_env where
  "guest_pv =
     \<lparr>cpu_context = (\<lambda>v. Inr (0, 0x1000, 0, 0)),
      dominfo_hvm = False, get_word_size = Inr 8,
      map_memory = guest_map_memory, pte_uninit = 0\<rparr>"

text \<open>
  The two-level guest again, with something left in the local \<open>pte\<close> before the
  walk: alternating bits in one, the top twelve bits in the other.
\<close>

definition guest_2level_stale :: pt_env where
  "guest_2level_stale = guest_2level\<lparr>pte_uninit := 0xaaaaaaaaaaaaaaaa\<rparr>"

definition guest_2level_stale_top :: pt_env where
  "guest_2level_stale_top = guest_2level\<lparr>pte_uninit := 0xfff0000000000000\<rparr>"

text \<open>
  A raw CPU context and a register file with recognisable values, and an HVM control
  channel that serves the context for vCPU 0 and fails with \<open>-EINVAL\<close> for any other.
\<close>

definition hvm_context_example :: hvm_hw_cpu where
  "hvm_context_example =
     \<lparr>hvm_hw_cpu.rax = 0x100, rbx = 0x101, rcx = 0x102, rdx = 0x103, rbp = 0x104,
      rsi = 0x105, rdi = 0x106, rsp = 0x107, r8 = 0x108, r9 = 0x109, r10 = 0x10a,
      r11 = 0x10b, r12 = 0x10c, r13 = 0x10d, r14 = 0x10e, r15 = 0x10f, rip = 0x110,
      rflags = 0x111, cr0 = 0x80050033, cr2 = 0x113, cr3 = 0x114, cr4 = 0x6f0,
      cs_base = 0x116, ds_base = 0x117, es_base = 0x118, fs_base = 0x119,
      gs_base = 0x11a, ss_base = 0x11b, shadow_gs = 0x11c, msr_efer = 0xd01\<rparr>"

definition regs_example :: RegistersX86_64 where
  "regs_example =
     \<lparr>RegistersX86_64.rax = 0x200, rbx = 0x201, rcx = 0x202, rdx = 0x203, rsp = 0x204,
      rbp = 0x205, rsi = 0x206, rdi = 0x207, r8 = 0x208, r9 = 0x209, r10 = 0x20a,
      r11 = 0x20b, r12 = 0x20c, r13 = 0x20d, r14 = 0x20e, r15 = 0x20f, rip = 0x210,
      rflags = 0x211, fs = 0x212, gs = 0x213, cs = 0x214, ds = 0x215, ss = 0x216,
      cr3 = 0x217\<rparr>"

definition regs_default_example :: RegistersX86_64 where
  "regs_default_example =
     \<lparr>RegistersX86_64.rax = 0, rbx = 0, rcx = 0, rdx = 0, rsp = 0, rbp = 0, rsi = 0,
      rdi = 0, r8 = 0, r9 = 0, r10 = 0, r11 = 0, r12 = 0, r13 = 0, r14 = 0, r15 = 0,
      rip = 0, rflags = 0, fs = 0, gs = 0, cs = 0, ds = 0, ss = 0, cr3 = 0\<rparr>"

definition hvm_env_example :: "unit hvm_env" where
  "hvm_env_example =
     \<lparr>xc_domain_hvm_getcontext_partial =
        (\<lambda>vcpu. if vcpu = 0 then (0, hvm_context_example) else (- 22, hvm_context_example))\<rparr>"

text \<open>
  Two monitors with an eight-entry ring and one pending request in slot 0, for vCPU 1
  with reason software breakpoint and instruction length 1: one with the supported
  version and a registered callback, one with another version.
\<close>

definition breakpoint_request :: vm_event_st where
  "breakpoint_request =
     \<lparr>version = VM_EVENT_INTERFACE_VERSION, flags = 1,
      reason = VM_EVENT_REASON_SOFTWARE_BREAKPOINT, vcpu_id = 1, altp2m_idx = 0,
      u_software_breakpoint_gfn = 0x1234, u_software_breakpoint_insn_length = 1,
      u_software_breakpoint_type = 6\<rparr>"

definition monitor_example :: monitor where
  "monitor_example =
     \<lparr>req_cons = 0, rsp_prod_pvt = 0, nr_ents = 8, sring_req_prod = 1, sring_req_event = 1,
      sring_rsp_prod = 0,
      sring_ring = (\<lambda>i. if i = 0 then breakpoint_request else vm_event_zero),
      on_software_breakpoint = True, effects = []\<rparr>"

definition monitor_bad_version :: monitor where
  "monitor_bad_version =
     monitor_example
       \<lparr>sring_ring :=
          (\<lambda>i. if i = 0 then breakpoint_request\<lparr>version := VM_EVENT_INTERFACE_VERSION + 1\<rparr>
                else vm_event_zero)\<rparr>"

section \<open>The pause tracker: properties\<close>

text \<open>
  The length of the tracker is fixed by the constructor and no operation changes it.
\<close>

lemma pause_unpause_vcpu_length:
  "length (vcpu_pause_state (snd (pause_unpause_vcpu xc hypercall v d))) =
   length (vcpu_pause_state d)"
  by (simp add: pause_unpause_vcpu_def hypercall_domctl_def Let_def split: option.split)

lemma Domain_ctor_length:
  "max_vcpu_id \<noteq> - 1 \<Longrightarrow>
   length (vcpu_pause_state (Domain_ctor max_vcpu_id)) = unat max_vcpu_id + 1"
proof -
  assume "max_vcpu_id \<noteq> - 1"
  then have "1 + max_vcpu_id \<noteq> 0" by (simp add: add_eq_0_iff)
  then have "unat (1 + max_vcpu_id) = Suc (unat max_vcpu_id)" by (rule unatSuc)
  then show ?thesis by (simp add: Domain_ctor_def add.commute)
qed

lemma Domain_ctor_3:
  "Domain_ctor 3 = \<lparr>vcpu_pause_state = [False, False, False, False], domctl_calls = []\<rparr>"
proof -
  have "unat (3 + 1 :: 32 word) = 4" by simp
  moreover have "replicate 4 False = [False, False, False, False]"
    by (simp add: numeral_eq_Suc)
  ultimately show ?thesis by (simp add: Domain_ctor_def)
qed

text \<open>
  The calls issued alternate: this holds after the constructor and every call of
  \<open>pause_unpause_vcpu\<close> on a tracked vCPU keeps it.
\<close>

lemma replay_calls_snoc:
  "replay_calls p (cmds @ [c]) =
     (case replay_calls p cmds of None \<Rightarrow> None | Some q \<Rightarrow> replay_calls q [c])"
  by (induction cmds arbitrary: p) auto

lemma no_redundant_calls_Domain_ctor: "no_redundant_calls (Domain_ctor max_vcpu_id)"
  by (simp add: no_redundant_calls_def Domain_ctor_def calls_for_def)

lemma no_redundant_calls_step:
  assumes inv: "no_redundant_calls d"
    and v: "unat v < length (vcpu_pause_state d)"
  shows "no_redundant_calls (snd (pause_unpause_vcpu xc hypercall v d))"
proof -
  have ne: "XEN_DOMCTL_gdbsx_unpausevcpu \<noteq> XEN_DOMCTL_gdbsx_pausevcpu"
    by (simp add: XEN_DOMCTL_gdbsx_unpausevcpu_def XEN_DOMCTL_gdbsx_pausevcpu_def)
  show ?thesis
    using inv v ne
    by (auto simp add: no_redundant_calls_def pause_unpause_vcpu_def hypercall_domctl_def Let_def
        calls_for_def replay_calls_snoc nth_list_update split: option.splits)
qed

text \<open>
  C2. On a tracker that has one bit for each vCPU \<open>0 .. max_vcpu_id\<close> and for
  \<open>v \<le> max_vcpu_id\<close>: a second \<open>pause_vcpu\<close> right after a first one returns without
  touching the object or the control channel, so the two together issue at most one
  hypercall; \<open>pause_vcpu\<close> on a paused vCPU and \<open>unpause_vcpu\<close> on a running one
  change nothing; a call issues its hypercall exactly when the tracked bit changes,
  whatever the control channel answers; and if no hypercall issued so far repeated
  the one before it for the same vCPU, none does after the call.
\<close>

theorem pause_unpause_idempotent:
  assumes len: "length (vcpu_pause_state d) = unat max_vcpu_id + 1"
    and v: "v \<le> max_vcpu_id"
  shows
    "(let (o1, d1) = pause_vcpu xc1 v d; (o2, d2) = pause_vcpu xc2 v d1
      in o2 = Done \<and> d2 = d1
         \<and> length (domctl_calls d2) \<le> length (domctl_calls d) + 1)
     \<and> (vcpu_pause_state d ! unat v \<longrightarrow> pause_vcpu xc1 v d = (Done, d))
     \<and> (\<not> vcpu_pause_state d ! unat v \<longrightarrow> unpause_vcpu xc1 v d = (Done, d))
     \<and> domctl_calls (snd (pause_vcpu xc1 v d)) =
         domctl_calls d @
           (if vcpu_pause_state d ! unat v then [] else [(XEN_DOMCTL_gdbsx_pausevcpu, v)])
     \<and> domctl_calls (snd (unpause_vcpu xc1 v d)) =
         domctl_calls d @
           (if vcpu_pause_state d ! unat v then [(XEN_DOMCTL_gdbsx_unpausevcpu, v)] else [])
     \<and> vcpu_pause_state (snd (pause_vcpu xc1 v d)) ! unat v
     \<and> \<not> vcpu_pause_state (snd (unpause_vcpu xc1 v d)) ! unat v
     \<and> (no_redundant_calls d \<longrightarrow>
          no_redundant_calls (snd (pause_vcpu xc1 v d))
          \<and> no_redundant_calls (snd (unpause_vcpu xc1 v d)))"
proof -
  from v have "unat v \<le> unat max_vcpu_id" by (simp add: word_le_nat_alt)
  with len have in_range: "unat v < length (vcpu_pause_state d)" by simp
  have ne: "XEN_DOMCTL_gdbsx_unpausevcpu \<noteq> XEN_DOMCTL_gdbsx_pausevcpu"
    by (simp add: XEN_DOMCTL_gdbsx_unpausevcpu_def XEN_DOMCTL_gdbsx_pausevcpu_def)
  have calls: "no_redundant_calls d \<longrightarrow>
          no_redundant_calls (snd (pause_vcpu xc1 v d))
          \<and> no_redundant_calls (snd (unpause_vcpu xc1 v d))"
    using in_range by (simp add: pause_vcpu_def unpause_vcpu_def no_redundant_calls_step)
  have "(let (o1, d1) = pause_vcpu xc1 v d; (o2, d2) = pause_vcpu xc2 v d1
      in o2 = Done \<and> d2 = d1
         \<and> length (domctl_calls d2) \<le> length (domctl_calls d) + 1)
     \<and> (vcpu_pause_state d ! unat v \<longrightarrow> pause_vcpu xc1 v d = (Done, d))
     \<and> (\<not> vcpu_pause_state d ! unat v \<longrightarrow> unpause_vcpu xc1 v d = (Done, d))
     \<and> domctl_calls (snd (pause_vcpu xc1 v d)) =
         domctl_calls d @
           (if vcpu_pause_state d ! unat v then [] else [(XEN_DOMCTL_gdbsx_pausevcpu, v)])
     \<and> domctl_calls (snd (unpause_vcpu xc1 v d)) =
         domctl_calls d @
           (if vcpu_pause_state d ! unat v then [(XEN_DOMCTL_gdbsx_unpausevcpu, v)] else [])
     \<and> vcpu_pause_state (snd (pause_vcpu xc1 v d)) ! unat v
     \<and> \<not> vcpu_pause_state (snd (unpause_vcpu xc1 v d)) ! unat v"
    using in_range ne
    by (simp add: pause_vcpu_def unpause_vcpu_def pause_unpause_vcpu_def hypercall_domctl_def
        Let_def split: option.split)
  with calls show ?thesis by blast
qed

theorem pause_unpause_idempotent_witness:
  "length (vcpu_pause_state (Domain_ctor 3)) = unat (3 :: 32 word) + 1
   \<and> (2 :: 32 word) \<le> 3
   \<and> no_redundant_calls (Domain_ctor 3)
   \<and> no_redundant_calls (snd (pause_vcpu (\<lambda>c w. None) 2 (Domain_ctor 3)))
   \<and> pause_vcpu (\<lambda>c w. None) 2 (Domain_ctor 3) =
       (Done, \<lparr>vcpu_pause_state = [False, False, True, False],
               domctl_calls = [(XEN_DOMCTL_gdbsx_pausevcpu, 2)]\<rparr>)
   \<and> pause_vcpu (\<lambda>c w. None) 2 (snd (pause_vcpu (\<lambda>c w. None) 2 (Domain_ctor 3))) =
       (Done, \<lparr>vcpu_pause_state = [False, False, True, False],
               domctl_calls = [(XEN_DOMCTL_gdbsx_pausevcpu, 2)]\<rparr>)"
proof -
  have two: "unat (2 :: 32 word) = Suc (Suc 0)" by simp
  have first: "pause_vcpu (\<lambda>c w. None) 2 (Domain_ctor 3) =
       (Done, \<lparr>vcpu_pause_state = [False, False, True, False],
               domctl_calls = [(XEN_DOMCTL_gdbsx_pausevcpu, 2)]\<rparr>)"
    by (simp add: Domain_ctor_3 pause_vcpu_def pause_unpause_vcpu_def hypercall_domctl_def two)
  have inv: "no_redundant_calls (Domain_ctor 3)"
    by (rule no_redundant_calls_Domain_ctor)
  have hyps: "length (vcpu_pause_state (Domain_ctor 3)) = unat (3 :: 32 word) + 1"
    "(2 :: 32 word) \<le> 3"
    by (simp_all add: Domain_ctor_3)
  from pause_unpause_idempotent [OF hyps, of "\<lambda>c w. None" "\<lambda>c w. None"] inv
  have "no_redundant_calls (snd (pause_vcpu (\<lambda>c w. None) 2 (Domain_ctor 3)))"
    by blast
  with inv hyps first show ?thesis
    by (simp add: pause_vcpu_def pause_unpause_vcpu_def hypercall_domctl_def two)
qed

text \<open>
  C3. For a vCPU index above \<open>max_vcpu_id\<close> the claim expects a failure with an
  invalid-vCPU condition. \<open>pause_unpause_vcpu\<close> has no such check: on the domain with
  the single vCPU 0, \<open>pause_vcpu\<close> and \<open>unpause_vcpu\<close> of vCPU 1 index the vector out
  of range and raise nothing, where the sibling \<open>set_debugging\<close> raises.
\<close>

theorem pause_vcpu_out_of_range:
  "pause_vcpu (\<lambda>c w. None) 1 (Domain_ctor 0) = (Undefined_behaviour, Domain_ctor 0)
   \<and> unpause_vcpu (\<lambda>c w. None) 1 (Domain_ctor 0) = (Undefined_behaviour, Domain_ctor 0)
   \<and> set_debugging 0 (\<lambda>b. 0) True 1 = Raised (XenException None)"
  by (simp add: pause_vcpu_def unpause_vcpu_def pause_unpause_vcpu_def Domain_ctor_def
      set_debugging_def XEN_DOMCTL_gdbsx_unpausevcpu_def XEN_DOMCTL_gdbsx_pausevcpu_def)

text \<open>
  C9. The tracked bit is written before the hypercall is issued. When the bit has to
  change and the hypercall raises, the exception leaves the object with the new bit and
  the call on record; the same request made again is then a no-op that issues nothing.
\<close>

theorem pause_state_not_rolled_back:
  assumes "unat v < length (vcpu_pause_state d)"
    and "xc hypercall v = Some e"
    and "hypercall = XEN_DOMCTL_gdbsx_pausevcpu \<and> \<not> vcpu_pause_state d ! unat v
         \<or> hypercall = XEN_DOMCTL_gdbsx_unpausevcpu \<and> vcpu_pause_state d ! unat v"
  shows
    "pause_unpause_vcpu xc hypercall v d =
       (Raised e,
        d\<lparr>vcpu_pause_state :=
             (vcpu_pause_state d)[unat v := (hypercall = XEN_DOMCTL_gdbsx_pausevcpu)],
          domctl_calls := domctl_calls d @ [(hypercall, v)]\<rparr>)
     \<and> pause_unpause_vcpu xc2 hypercall v (snd (pause_unpause_vcpu xc hypercall v d)) =
         (Done, snd (pause_unpause_vcpu xc hypercall v d))"
proof -
  have ne: "XEN_DOMCTL_gdbsx_unpausevcpu \<noteq> XEN_DOMCTL_gdbsx_pausevcpu"
    by (simp add: XEN_DOMCTL_gdbsx_unpausevcpu_def XEN_DOMCTL_gdbsx_pausevcpu_def)
  from assms(3) show ?thesis
  proof
    assume "hypercall = XEN_DOMCTL_gdbsx_pausevcpu \<and> \<not> vcpu_pause_state d ! unat v"
    then show ?thesis using assms(1,2)
      by (simp add: pause_unpause_vcpu_def hypercall_domctl_def Let_def)
  next
    assume "hypercall = XEN_DOMCTL_gdbsx_unpausevcpu \<and> vcpu_pause_state d ! unat v"
    then show ?thesis using assms(1,2) ne
      by (simp add: pause_unpause_vcpu_def hypercall_domctl_def Let_def)
  qed
qed

theorem pause_state_not_rolled_back_witness:
  "unat (0 :: 32 word) < length (vcpu_pause_state (Domain_ctor 0))
   \<and> \<not> vcpu_pause_state (Domain_ctor 0) ! unat (0 :: 32 word)
   \<and> pause_unpause_vcpu (\<lambda>c w. Some (XenException (Some 22))) XEN_DOMCTL_gdbsx_pausevcpu 0
       (Domain_ctor 0) =
       (Raised (XenException (Some 22)),
        \<lparr>vcpu_pause_state = [True], domctl_calls = [(XEN_DOMCTL_gdbsx_pausevcpu, 0)]\<rparr>)
   \<and> pause_unpause_vcpu (\<lambda>c w. None) XEN_DOMCTL_gdbsx_pausevcpu 0
       \<lparr>vcpu_pause_state = [True], domctl_calls = [(XEN_DOMCTL_gdbsx_pausevcpu, 0)]\<rparr> =
       (Done, \<lparr>vcpu_pause_state = [True], domctl_calls = [(XEN_DOMCTL_gdbsx_pausevcpu, 0)]\<rparr>)"
proof -
  have h1: "unat (0 :: 32 word) < length (vcpu_pause_state (Domain_ctor 0))"
    by (simp add: Domain_ctor_def)
  have h2: "(\<lambda>c w. Some (XenException (Some 22))) XEN_DOMCTL_gdbsx_pausevcpu (0 :: 32 word) =
              Some (XenException (Some 22))"
    by simp
  have running: "\<not> vcpu_pause_state (Domain_ctor 0) ! unat (0 :: 32 word)"
    by (simp add: Domain_ctor_def)
  then have h3: "XEN_DOMCTL_gdbsx_pausevcpu = XEN_DOMCTL_gdbsx_pausevcpu
         \<and> \<not> vcpu_pause_state (Domain_ctor 0) ! unat (0 :: 32 word)
       \<or> XEN_DOMCTL_gdbsx_pausevcpu = XEN_DOMCTL_gdbsx_unpausevcpu
         \<and> vcpu_pause_state (Domain_ctor 0) ! unat (0 :: 32 word)"
    by simp
  from pause_state_not_rolled_back [OF h1 h2 h3, of "\<lambda>c w. None"] h1 running
  show ?thesis by (simp add: Domain_ctor_def pause_unpause_vcpu_def hypercall_domctl_def)
qed

section \<open>The page-table walk: properties\<close>

lemma present_bit: "(e AND 1 = 0) = (\<not> bit e 0)" for e :: "64 word"
  by (simp add: and_one_eq bit_0 even_iff_mod_2_eq_zero)

lemma pse_bit: "(e AND PTE_PSE \<noteq> 0) = bit e 7" for e :: "64 word"
  using bit_iff_and_push_bit_not_eq_0 [of e 7] by (simp add: PTE_PSE_def)

text \<open>
  The mask trick of line 195, for any word: when \<open>w\<close> is not zero and \<open>k\<close> is the
  position of its lowest set bit, \<open>(w ^ ~-w) >> 1\<close> is the word with exactly the bits
  below \<open>k\<close> set.
\<close>

lemma odd_decr_bit:
  fixes u :: "'a::len word"
  assumes "odd u"
  shows "bit (u - 1) n \<longleftrightarrow> bit u n \<and> n \<noteq> 0"
proof (cases n)
  case 0
  then show ?thesis using assms by (simp add: bit_0)
next
  case (Suc m)
  have "u div 2 * 2 + u mod 2 = u" by (rule div_mult_mod_eq)
  moreover have "u mod 2 = 1" using assms by (simp add: odd_iff_mod_2_eq_one)
  ultimately have "u div 2 * 2 + 1 = u" by simp
  then have eq: "u - 1 = 2 * (u div 2)"
    by (metis add_diff_cancel_right' mult.commute)
  have "bit (u - 1) (Suc m) \<longleftrightarrow> bit (u div 2) m \<and> possible_bit TYPE('a word) (Suc m)"
    unfolding eq by (auto simp add: bit_double_iff)
  moreover have "bit u (Suc m) \<longleftrightarrow> bit (u div 2) m" by (rule bit_Suc)
  moreover have "bit u (Suc m) \<Longrightarrow> possible_bit TYPE('a word) (Suc m)"
    by (rule bit_imp_possible_bit)
  ultimately show ?thesis using Suc by auto
qed

lemma decr_push_bit:
  fixes u :: "'a::len word"
  shows "push_bit k u - 1 = push_bit k (u - 1) OR mask k"
proof -
  have "push_bit k u - 1 = push_bit k (u - 1) + mask k"
    by (simp add: push_bit_eq_mult mask_eq_decr_exp algebra_simps)
  also have "\<dots> = push_bit k (u - 1) OR mask k"
    by (rule disjunctive_add_eq_or) (rule bit_eqI, simp add: bit_simps)
  finally show ?thesis .
qed

lemma low_bits:
  fixes w :: "'a::len word"
  assumes "w \<noteq> 0"
  shows "\<exists>k. bit w k \<and> take_bit k w = 0 \<and> drop_bit 1 (w XOR NOT (- w)) = mask k"
proof -
  from assms obtain j where "bit w j" by (auto simp: bit_eq_iff)
  define k where "k = (LEAST j. bit w j)"
  have bk: "bit w k" unfolding k_def using \<open>bit w j\<close> by (rule LeastI)
  have below: "\<not> bit w i" if "i < k" for i
    using that not_less_Least unfolding k_def by blast
  have tk: "take_bit k w = 0"
    by (rule bit_eqI) (auto simp: bit_take_bit_iff below)
  define u where "u = drop_bit k w"
  have w: "w = push_bit k u"
    unfolding u_def using tk by (metis add_cancel_right_right bits_ident)
  have "odd u" using bk by (simp add: u_def bit_iff_odd_drop_bit)
  have klen: "k < LENGTH('a)" using bk by (rule bit_imp_le_length)
  have "NOT (- w) = w - 1" by (simp add: decr_eq_not_minus)
  also have "\<dots> = push_bit k (u - 1) OR mask k" unfolding w by (rule decr_push_bit)
  finally have nm: "NOT (- w) = push_bit k (u - 1) OR mask k" .
  have "drop_bit 1 (w XOR NOT (- w)) = mask k"
  proof (rule bit_eqI)
    fix n
    assume "possible_bit TYPE('a word) n"
    show "bit (drop_bit 1 (w XOR NOT (- w))) n = bit (mask k :: 'a word) n"
      unfolding nm
      apply (subst w)
      using \<open>odd u\<close> klen
      by (auto simp add: bit_simps odd_decr_bit bit_0)
  qed
  with bk tk show ?thesis by blast
qed

text \<open>
  One iteration of the loop, once the entry address \<open>a\<close> has been mapped and the
  entry \<open>e\<close> copied out of the mapping.
\<close>

lemma walk_step:
  assumes "a = paddr + drop_bit (nat (xc_ffs64 msk - 1)) (vaddr AND msk) * of_nat sz"
    and "map_memory env a = Inr m"
    and "e = memcpy_pte pte m (unat (a AND (XC_PAGE_SIZE - 1))) sz"
  shows "walk_pagetables env pt_levels vaddr sz (Suc n) paddr msk pte =
     (if \<not> bit e 0 then ([Fetched (Suc n) a e], Inr None)
      else if (Suc n = 2 \<or> (Suc n = 3 \<and> pt_levels = 4)) \<and> bit e 7 then
        ([Fetched (Suc n) a e],
         Inr (Some (drop_bit XC_PAGE_SHIFT
                (((e AND 0x000ffffffffff000) AND NOT (drop_bit 1 (msk XOR NOT (- msk))))
                 OR (vaddr AND drop_bit 1 (msk XOR NOT (- msk)))))))
      else
        (Fetched (Suc n) a e #
           fst (walk_pagetables env pt_levels vaddr sz n (e AND 0x000ffffffffff000)
                  (drop_bit (if pt_levels = 2 then 10 else 9) msk) e),
         snd (walk_pagetables env pt_levels vaddr sz n (e AND 0x000ffffffffff000)
                  (drop_bit (if pt_levels = 2 then 10 else 9) msk) e)))"
  using assms
  by (subst walk_pagetables.simps(2))
     (simp add: Let_def present_bit pse_bit split: prod.split del: walk_pagetables.simps)

lemma walk_Suc_cases:
  obtains
    (fault) a err where "map_memory env a = Inl err"
      "walk_pagetables env pt_levels vaddr sz (Suc n) paddr msk pte =
         ([Map_failed a], Inl err)"
  | (absent) a e where "\<not> bit e 0"
      "walk_pagetables env pt_levels vaddr sz (Suc n) paddr msk pte =
         ([Fetched (Suc n) a e], Inr None)"
  | (large) a e r where "bit e 0" "Suc n = 2 \<or> (Suc n = 3 \<and> pt_levels = 4)"
      "walk_pagetables env pt_levels vaddr sz (Suc n) paddr msk pte =
         ([Fetched (Suc n) a e], Inr (Some r))"
  | (descend) a e paddr2 msk2 where "bit e 0"
      "walk_pagetables env pt_levels vaddr sz (Suc n) paddr msk pte =
         (Fetched (Suc n) a e # fst (walk_pagetables env pt_levels vaddr sz n paddr2 msk2 e),
          snd (walk_pagetables env pt_levels vaddr sz n paddr2 msk2 e))"
proof -
  define a where "a = paddr + drop_bit (nat (xc_ffs64 msk - 1)) (vaddr AND msk) * of_nat sz"
  show thesis
  proof (cases "map_memory env a")
    case (Inl err)
    then have "walk_pagetables env pt_levels vaddr sz (Suc n) paddr msk pte =
         ([Map_failed a], Inl err)"
      by (subst walk_pagetables.simps(2), unfold Let_def a_def [symmetric]) simp
    with Inl show thesis by (rule fault)
  next
    case (Inr m)
    define e where "e = memcpy_pte pte m (unat (a AND (XC_PAGE_SIZE - 1))) sz"
    note step = walk_step [OF a_def Inr e_def, of pt_levels n]
    consider "\<not> bit e 0"
      | "bit e 0" "(Suc n = 2 \<or> (Suc n = 3 \<and> pt_levels = 4)) \<and> bit e 7"
      | "bit e 0" "\<not> ((Suc n = 2 \<or> (Suc n = 3 \<and> pt_levels = 4)) \<and> bit e 7)"
      by blast
    then show thesis
    proof cases
      case 1
      have "walk_pagetables env pt_levels vaddr sz (Suc n) paddr msk pte =
              ([Fetched (Suc n) a e], Inr None)"
        unfolding step by (simp only: 1 simp_thms if_True if_False)
      with 1 show thesis by (rule absent)
    next
      case 2
      have "\<exists>r. walk_pagetables env pt_levels vaddr sz (Suc n) paddr msk pte =
              ([Fetched (Suc n) a e], Inr (Some r))"
        unfolding step by (simp only: 2 simp_thms if_True if_False) blast
      with 2 show thesis using large [of e a] by blast
    next
      case 3
      have "\<exists>paddr2 msk2. walk_pagetables env pt_levels vaddr sz (Suc n) paddr msk pte =
         (Fetched (Suc n) a e # fst (walk_pagetables env pt_levels vaddr sz n paddr2 msk2 e),
          snd (walk_pagetables env pt_levels vaddr sz n paddr2 msk2 e))"
        unfolding step by (simp only: 3 simp_thms if_True if_False) blast
      with 3 show thesis using descend [of e a] by blast
    qed
  qed
qed

lemma walk_events_nonempty:
  "fst (walk_pagetables env pt_levels vaddr sz (Suc n) paddr msk pte) \<noteq> []"
  by (cases rule: walk_Suc_cases [of env pt_levels vaddr sz n paddr msk pte]) simp_all

lemma walk_not_present:
  "snd (walk_pagetables env pt_levels vaddr sz level paddr msk pte) = Inr None \<longleftrightarrow>
   (\<exists>l a e. Fetched l a e \<in> set (fst (walk_pagetables env pt_levels vaddr sz level paddr msk pte))
            \<and> \<not> bit e 0)"
proof (induction level arbitrary: paddr msk pte)
  case 0
  show ?case by simp
next
  case (Suc n)
  show ?case
    by (cases rule: walk_Suc_cases [of env pt_levels vaddr sz n paddr msk pte])
       (auto simp add: Suc.IH)
qed

lemma walk_fault:
  "Map_failed a \<in> set (fst (walk_pagetables env pt_levels vaddr sz level paddr msk pte)) \<Longrightarrow>
   \<exists>err. map_memory env a = Inl err
        \<and> snd (walk_pagetables env pt_levels vaddr sz level paddr msk pte) = Inl err"
proof (induction level arbitrary: paddr msk pte)
  case 0
  then show ?case by simp
next
  case (Suc n)
  show ?case
    using Suc.prems
    by (cases rule: walk_Suc_cases [of env pt_levels vaddr sz n paddr msk pte])
       (auto dest: Suc.IH)
qed

lemma walk_complete:
  assumes "fst (walk_pagetables env pt_levels vaddr sz level paddr msk pte) \<noteq> []"
    and "last (fst (walk_pagetables env pt_levels vaddr sz level paddr msk pte)) = Fetched 1 a e"
    and "bit e 0"
  shows "snd (walk_pagetables env pt_levels vaddr sz level paddr msk pte) = Inr (Some e)"
  using assms
proof (induction level arbitrary: paddr msk pte)
  case 0
  then show ?case by simp
next
  case (Suc n)
  show ?case
  proof (cases rule: walk_Suc_cases [of env pt_levels vaddr sz n paddr msk pte])
    case (fault a)
    with Suc.prems show ?thesis by simp
  next
    case (absent a1 e1)
    with Suc.prems show ?thesis by simp
  next
    case (large a1 e1 r)
    with Suc.prems show ?thesis by auto
  next
    case (descend a1 e1 paddr2 msk2)
    show ?thesis
    proof (cases n)
      case 0
      with descend Suc.prems show ?thesis by simp
    next
      case (Suc k)
      then have ne: "fst (walk_pagetables env pt_levels vaddr sz n paddr2 msk2 e1) \<noteq> []"
        by (simp only: walk_events_nonempty not_False_eq_True)
      with descend Suc.prems
      have lst: "last (fst (walk_pagetables env pt_levels vaddr sz n paddr2 msk2 e1)) = Fetched 1 a e"
        by simp
      have "snd (walk_pagetables env pt_levels vaddr sz n paddr2 msk2 e1) = Inr (Some e)"
        by (rule Suc.IH [OF ne lst Suc.prems(3)])
      with descend show ?thesis by simp
    qed
  qed
qed

text \<open>
  An iteration at level 2, or at level 3 of a four-level walk, where the entry address
  \<open>a\<close> can be mapped and the local \<open>pte\<close> after the \<open>memcpy\<close>, here \<open>e\<close>, has
  bit 0 (present) and bit 7 (PSE) set: the walk ends there and returns
  \<open>((e & 0x000ffffffffff000 & ~off) | (vaddr & off)) >> XC_PAGE_SHIFT\<close>, where
  \<open>off\<close> has exactly the bits below the lowest set bit \<open>k\<close> of the current mask.
\<close>

lemma large_page_step:
  assumes "level = 2 \<or> (level = 3 \<and> pt_levels = 4)"
    and "a = paddr + drop_bit (nat (xc_ffs64 msk - 1)) (vaddr AND msk) * of_nat sz"
    and "map_memory env a = Inr m"
    and "e = memcpy_pte pte m (unat (a AND (XC_PAGE_SIZE - 1))) sz"
    and "bit e 0" and "bit e 7"
    and "msk \<noteq> 0"
  shows "\<exists>k. bit msk k \<and> take_bit k msk = 0
           \<and> walk_pagetables env pt_levels vaddr sz level paddr msk pte =
               ([Fetched level a e],
                Inr (Some (drop_bit XC_PAGE_SHIFT
                  (((e AND 0x000ffffffffff000) AND NOT (mask k)) OR (vaddr AND mask k)))))"
proof -
  from low_bits [OF \<open>msk \<noteq> 0\<close>] obtain k
    where k: "bit msk k" "take_bit k msk = 0" "drop_bit 1 (msk XOR NOT (- msk)) = mask k"
    by blast
  from assms(1) obtain n where n: "level = Suc n" by (cases level) auto
  have "walk_pagetables env pt_levels vaddr sz level paddr msk pte =
               ([Fetched level a e],
                Inr (Some (drop_bit XC_PAGE_SHIFT
                  (((e AND 0x000ffffffffff000) AND NOT (mask k)) OR (vaddr AND mask k)))))"
    unfolding n walk_step [OF assms(2,3,4)] k(3)
    using assms(1,5,6) by (simp only: n simp_thms if_True if_False)
  with k show ?thesis by blast
qed

text \<open>
  What the local \<open>pte\<close> holds after the \<open>memcpy\<close>. An 8-byte copy replaces all of
  it, so with three or four levels it is the entry of the table. A 4-byte copy
  replaces its lower half only: with two levels the upper half is what the local held
  before, in the first iteration whatever the uninitialised variable contains.
\<close>

lemma memcpy_pte_8: "memcpy_pte pte m off 8 = le_bytes m off 8"
proof -
  have "(mask 64 :: 64 word) = - 1" by (rule bit_eqI) (simp add: bit_simps)
  then show ?thesis by (simp add: memcpy_pte_def)
qed

lemma le_bytes_bound: "drop_bit (8 * n) (le_bytes m off n) = 0"
proof (induction n arbitrary: off)
  case 0
  show ?case by simp
next
  case (Suc n)
  have "drop_bit (8 * Suc n) (le_bytes m off (Suc n)) =
        drop_bit (8 * n) (drop_bit 8 (ucast (m off) OR push_bit 8 (le_bytes m (Suc off) n)))"
    by (simp add: drop_bit_drop_bit add.commute)
  also have "drop_bit 8 (ucast (m off) OR push_bit 8 (le_bytes m (Suc off) n) :: 64 word) =
        take_bit 56 (le_bytes m (Suc off) n)"
    by (rule bit_eqI) (auto simp add: bit_simps dest: bit_imp_le_length)
  also have "drop_bit (8 * n) (take_bit 56 (le_bytes m (Suc off) n)) = 0"
    using Suc.IH [of "Suc off"] by (simp add: drop_bit_take_bit)
  finally show ?case .
qed

lemma le_bytes_4_upper: "\<not> bit (le_bytes m off 4) (32 + n)"
proof -
  have "drop_bit (8 * 4) (le_bytes m off 4) = 0" by (rule le_bytes_bound)
  then have "bit (drop_bit 32 (le_bytes m off 4)) n = bit (0 :: 64 word) n" by simp
  then show ?thesis by (simp add: bit_drop_bit_eq)
qed

lemma memcpy_pte_4_upper:
  "drop_bit 32 (memcpy_pte pte m off 4) = drop_bit 32 pte"
  by (rule bit_eqI)
     (auto simp add: memcpy_pte_def bit_simps le_bytes_4_upper dest: bit_imp_le_length)

lemma memcpy_pte_4_lower:
  "take_bit 32 (memcpy_pte pte m off 4) = le_bytes m off 4"
proof (rule bit_eqI)
  fix n
  show "bit (take_bit 32 (memcpy_pte pte m off 4)) n = bit (le_bytes m off 4) n"
  proof (cases "n < 32")
    case True
    then show ?thesis by (auto simp add: memcpy_pte_def bit_simps)
  next
    case False
    then obtain k where "n = 32 + k" by (metis le_add_diff_inverse not_less)
    then show ?thesis by (simp add: bit_simps le_bytes_4_upper)
  qed
qed

text \<open>
  With 8-byte entries the large page is therefore formed from the entry of the table
  and the virtual address alone.
\<close>

lemma large_page_8_byte_entries:
  assumes "level = 2 \<or> (level = 3 \<and> pt_levels = 4)"
    and "a = paddr + drop_bit (nat (xc_ffs64 msk - 1)) (vaddr AND msk) * of_nat 8"
    and "map_memory env a = Inr m"
    and "e = le_bytes m (unat (a AND (XC_PAGE_SIZE - 1))) 8"
    and "bit e 0" and "bit e 7"
    and "msk \<noteq> 0"
  shows "\<exists>k. bit msk k \<and> take_bit k msk = 0
           \<and> walk_pagetables env pt_levels vaddr 8 level paddr msk pte =
               ([Fetched level a e],
                Inr (Some (drop_bit XC_PAGE_SHIFT
                  (((e AND 0x000ffffffffff000) AND NOT (mask k)) OR (vaddr AND mask k)))))"
proof -
  have "e = memcpy_pte pte m (unat (a AND (XC_PAGE_SIZE - 1))) 8"
    using assms(4) by (simp only: memcpy_pte_8)
  with assms(1,2,3) show ?thesis using assms(5,6,7) by (rule large_page_step)
qed

text \<open>
  C4. At level 2 of a two-level walk the frame returned for a large page is not formed
  from the entry and the virtual address alone. The page-directory entry 6 of the
  example guest is \<open>0x00a00083\<close> (present, PSE), and with the virtual address
  \<open>0x1a12345\<close> its frame field and the low 22 bits of the address give the frame
  \<open>0xa12\<close>. When the uninitialised local \<open>pte\<close> holds \<open>0xaaaaaaaaaaaaaaaa\<close>,
  \<open>get_page_table_entry\<close> returns \<open>0xaaaaa00a12\<close>: bits 32 to 51 of the stale
  local pass through the frame mask. It returns \<open>0xa12\<close> when the local happens to
  hold 0.
\<close>

theorem large_page_2level_stale_bits:
  "cpu_context guest_2level_stale 0 = Inr (0x80000001, 0x3000, 0, 0)
   \<and> pte_uninit guest_2level_stale = 0xaaaaaaaaaaaaaaaa
   \<and> le_bytes (projr (map_memory guest_2level_stale 0x3018))
         (unat ((0x3018 :: 64 word) AND (XC_PAGE_SIZE - 1))) 4 = 0x00a00083
   \<and> drop_bit XC_PAGE_SHIFT
         (((0x00a00083 AND 0x000ffffffffff000) AND NOT 0x3fffff) OR (0x1a12345 AND 0x3fffff)) =
       (0xa12 :: 64 word)
   \<and> get_page_table_entry guest_2level_stale 0x1a12345 0 =
       ([Fetched 2 0x3018 0xaaaaaaaa00a00083], Inr (Some 0xaaaaa00a12))
   \<and> get_page_table_entry guest_2level 0x1a12345 0 =
       ([Fetched 2 0x3018 0x00a00083], Inr (Some 0xa12))"
proof -
  have regs: "cpu_context guest_2level_stale 0 = Inr (0x80000001, 0x3000, 0, 0)"
    by (simp add: guest_2level_stale_def guest_2level_def)
  have stale: "pte_uninit guest_2level_stale = 0xaaaaaaaaaaaaaaaa"
    by (simp add: guest_2level_stale_def)
  have entry: "le_bytes (projr (map_memory guest_2level_stale 0x3018))
         (unat ((0x3018 :: 64 word) AND (XC_PAGE_SIZE - 1))) 4 = 0x00a00083"
    by code_simp
  have expected: "drop_bit XC_PAGE_SHIFT
         (((0x00a00083 AND 0x000ffffffffff000) AND NOT 0x3fffff) OR (0x1a12345 AND 0x3fffff)) =
       (0xa12 :: 64 word)"
    by code_simp
  have dirty: "get_page_table_entry guest_2level_stale 0x1a12345 0 =
       ([Fetched 2 0x3018 0xaaaaaaaa00a00083], Inr (Some 0xaaaaa00a12))"
    by code_simp
  have clean: "get_page_table_entry guest_2level 0x1a12345 0 =
       ([Fetched 2 0x3018 0x00a00083], Inr (Some 0xa12))"
    by code_simp
  show ?thesis by (intro conjI regs stale entry expected dirty clean)
qed

text \<open>
  What \<open>get_page_table_entry\<close> can do: return before the loop with something other
  than "not present", or run the loop from the top level.
\<close>

lemma get_page_table_entry_cases:
  obtains
    (direct) r where "get_page_table_entry env vaddr v = ([], r)" "r \<noteq> Inr None"
  | (walk) pt_levels vaddr1 sz paddr msk where
      "get_page_table_entry env vaddr v =
         walk_pagetables env pt_levels vaddr1 sz pt_levels paddr msk (pte_uninit env)"
proof (cases "cpu_context env v")
  case (Inl err)
  then have "get_page_table_entry env vaddr v = ([], Inl err)"
    by (simp add: get_page_table_entry_def)
  then show thesis by (rule direct) simp
next
  case (Inr regs)
  obtain c0 c3 c4 efer where regs: "regs = (c0, c3, c4, efer)" by (cases regs) auto
  show thesis
  proof (cases "paging_mode env vaddr c0 c3 c4 efer")
    case (Inl r)
    with Inr regs have eq: "get_page_table_entry env vaddr v = ([], r)"
      by (simp add: get_page_table_entry_def)
    from Inl have "r \<noteq> Inr None"
      by (auto simp add: paging_mode_def Let_def split: if_splits sum.splits)
    with eq show thesis by (rule direct)
  next
    case (Inr mode)
    obtain pt_levels paddr where mode: "mode = (pt_levels, paddr)" by (cases mode) auto
    from Inr \<open>cpu_context env v = Inr regs\<close> regs mode
    have "\<exists>vaddr1 sz msk. get_page_table_entry env vaddr v =
         walk_pagetables env pt_levels vaddr1 sz pt_levels paddr msk (pte_uninit env)"
      by (simp add: get_page_table_entry_def Let_def del: walk_pagetables.simps) blast
    then show thesis using walk by blast
  qed
qed

text \<open>
  The results of \<open>get_page_table_entry\<close>: it returns "not present"
  (\<open>std::nullopt\<close>) if and only if one of the entries it fetched has bit 0 clear; when
  a mapping fails during the walk, the call ends with the exception of the mapping
  service, which is not the return of "not present"; and when the last thing the walk
  did was to fetch at level 1 with bit 0 set, that is when the loop ran to its end, the
  result is what the local \<open>pte\<close> holds then.
\<close>

lemma get_page_table_entry_results:
  "(snd (get_page_table_entry env vaddr v) = Inr None \<longleftrightarrow>
      (\<exists>l a e. Fetched l a e \<in> set (fst (get_page_table_entry env vaddr v)) \<and> \<not> bit e 0))
   \<and> (Map_failed a2 \<in> set (fst (get_page_table_entry env vaddr v)) \<longrightarrow>
        (\<exists>err. map_memory env a2 = Inl err
           \<and> snd (get_page_table_entry env vaddr v) = Inl err))
   \<and> (fst (get_page_table_entry env vaddr v) \<noteq> []
        \<and> last (fst (get_page_table_entry env vaddr v)) = Fetched 1 a1 e1 \<and> bit e1 0 \<longrightarrow>
        snd (get_page_table_entry env vaddr v) = Inr (Some e1))"
proof (cases rule: get_page_table_entry_cases [of env vaddr v])
  case (direct r)
  then show ?thesis by simp
next
  case (walk pt_levels vaddr1 sz paddr msk)
  show ?thesis
    unfolding walk
    using walk_not_present [of env pt_levels vaddr1 sz pt_levels paddr msk "pte_uninit env"]
      walk_fault [of a2 env pt_levels vaddr1 sz pt_levels paddr msk "pte_uninit env"]
      walk_complete [of env pt_levels vaddr1 sz pt_levels paddr msk "pte_uninit env" a1 e1]
    by blast
qed

text \<open>
  In long mode, on the example guest: an empty entry at level 2, a table in a frame
  that cannot be mapped, and a walk that runs to its end.
\<close>

lemma long_mode_walk_examples:
  "get_page_table_entry guest_long_mode 0x40c00000 0 =
     ([Fetched 4 0x1000 0x2003, Fetched 3 0x2008 0x3003, Fetched 2 0x3030 0], Inr None)
   \<and> get_page_table_entry guest_long_mode 0x80000000 0 =
     ([Fetched 4 0x1000 0x2003, Fetched 3 0x2010 0x9003, Map_failed 0x9000],
      Inl (XenException (Some 14)))
   \<and> get_page_table_entry guest_long_mode 0x40805678 0 =
     ([Fetched 4 0x1000 0x2003, Fetched 3 0x2008 0x3003, Fetched 2 0x3020 0x4003,
       Fetched 1 0x4028 0xbeef003], Inr (Some 0xbeef003))"
proof -
  have absent: "get_page_table_entry guest_long_mode 0x40c00000 0 =
     ([Fetched 4 0x1000 0x2003, Fetched 3 0x2008 0x3003, Fetched 2 0x3030 0], Inr None)"
    by code_simp
  have fault: "get_page_table_entry guest_long_mode 0x80000000 0 =
     ([Fetched 4 0x1000 0x2003, Fetched 3 0x2010 0x9003, Map_failed 0x9000],
      Inl (XenException (Some 14)))"
    by code_simp
  have complete: "get_page_table_entry guest_long_mode 0x40805678 0 =
     ([Fetched 4 0x1000 0x2003, Fetched 3 0x2008 0x3003, Fetched 2 0x3020 0x4003,
       Fetched 1 0x4028 0xbeef003], Inr (Some 0xbeef003))"
    by code_simp
  show ?thesis by (intro conjI absent fault complete)
qed

text \<open>
  C5. A two-level walk that runs to its end does not return the final entry. In the
  example guest the virtual address \<open>0x200a123\<close> leads through the page-directory
  entry 8 to the page-table entry \<open>0x0beef003\<close> at \<open>0x4028\<close>. When the uninitialised
  local \<open>pte\<close> holds \<open>0xfff0000000000000\<close>, \<open>get_page_table_entry\<close> returns
  \<open>0xfff000000beef003\<close>, the entry under the stale upper half of the local; when it
  holds \<open>0xaaaaaaaaaaaaaaaa\<close>, the stale bits enter the address of the page table and
  the walk of the same intact tables ends in a failed mapping. It returns the entry
  when the local happens to hold 0.
\<close>

theorem completed_walk_2level_stale_bits:
  "pte_uninit guest_2level_stale_top = 0xfff0000000000000
   \<and> le_bytes (projr (map_memory guest_2level_stale_top 0x4028))
         (unat ((0x4028 :: 64 word) AND (XC_PAGE_SIZE - 1))) 4 = 0x0beef003
   \<and> get_page_table_entry guest_2level_stale_top 0x200a123 0 =
       ([Fetched 2 0x3020 0xfff0000000004003, Fetched 1 0x4028 0xfff000000beef003],
        Inr (Some 0xfff000000beef003))
   \<and> get_page_table_entry guest_2level_stale 0x200a123 0 =
       ([Fetched 2 0x3020 0xaaaaaaaa00004003, Map_failed 0xaaaaa00004028],
        Inl (XenException (Some 14)))
   \<and> get_page_table_entry guest_2level 0x200a123 0 =
       ([Fetched 2 0x3020 0x4003, Fetched 1 0x4028 0x0beef003], Inr (Some 0x0beef003))"
proof -
  have stale: "pte_uninit guest_2level_stale_top = 0xfff0000000000000"
    by (simp add: guest_2level_stale_top_def)
  have entry: "le_bytes (projr (map_memory guest_2level_stale_top 0x4028))
         (unat ((0x4028 :: 64 word) AND (XC_PAGE_SIZE - 1))) 4 = 0x0beef003"
    by code_simp
  have top: "get_page_table_entry guest_2level_stale_top 0x200a123 0 =
       ([Fetched 2 0x3020 0xfff0000000004003, Fetched 1 0x4028 0xfff000000beef003],
        Inr (Some 0xfff000000beef003))"
    by code_simp
  have fault: "get_page_table_entry guest_2level_stale 0x200a123 0 =
       ([Fetched 2 0x3020 0xaaaaaaaa00004003, Map_failed 0xaaaaa00004028],
        Inl (XenException (Some 14)))"
    by code_simp
  have clean: "get_page_table_entry guest_2level 0x200a123 0 =
       ([Fetched 2 0x3020 0x4003, Fetched 1 0x4028 0x0beef003], Inr (Some 0x0beef003))"
    by code_simp
  show ?thesis by (intro conjI stale entry top fault clean)
qed

text \<open>
  C6, as the code has it: for a domain that \<open>get_dominfo()\<close> reports as HVM, when the
  vCPU's registers can be read and \<open>CR0.PG\<close> is clear, the translation is
  \<open>vaddr >> XC_PAGE_SHIFT\<close> and nothing is mapped.
\<close>

theorem paging_disabled_hvm:
  assumes "cpu_context env v = Inr (c0, c3, c4, efer)"
    and "dominfo_hvm env"
    and "c0 AND CR0_PG = 0"
  shows "get_page_table_entry env vaddr v = ([], Inr (Some (drop_bit XC_PAGE_SHIFT vaddr)))"
  using assms by (simp add: get_page_table_entry_def paging_mode_def)

theorem paging_disabled_hvm_witness:
  "cpu_context guest_no_paging 0 = Inr (0x00000011, 0x1000, 0, 0)
   \<and> dominfo_hvm guest_no_paging
   \<and> (0x00000011 :: 64 word) AND CR0_PG = 0
   \<and> get_page_table_entry guest_no_paging 0x1a12345 0 = ([], Inr (Some 0x1a12))"
proof -
  have h1: "cpu_context guest_no_paging 0 = Inr (0x00000011, 0x1000, 0, 0)"
    by (simp add: guest_no_paging_def)
  have h2: "dominfo_hvm guest_no_paging" by (simp add: guest_no_paging_def)
  have h3: "(0x00000011 :: 64 word) AND CR0_PG = 0" by (simp add: CR0_PG_def)
  have "drop_bit XC_PAGE_SHIFT (0x1a12345 :: 64 word) = 0x1a12"
    by (simp add: XC_PAGE_SHIFT_def)
  with paging_disabled_hvm [OF h1 h2 h3, of "0x1a12345"] h1 h2 h3 show ?thesis by simp
qed

text \<open>
  C6 as claimed, for every domain, fails: the check of \<open>CR0.PG\<close> is inside the HVM
  branch. For the PV guest of the examples, whose \<open>cr0\<close> is 0, the tables are walked
  and the result is the level-1 entry.
\<close>

theorem paging_disabled_pv_counterexample:
  "cpu_context guest_pv 0 = Inr (0, 0x1000, 0, 0)
   \<and> \<not> dominfo_hvm guest_pv
   \<and> (0 :: 64 word) AND CR0_PG = 0
   \<and> get_page_table_entry guest_pv 0x40805678 0 =
       ([Fetched 4 0x1000 0x2003, Fetched 3 0x2008 0x3003, Fetched 2 0x3020 0x4003,
         Fetched 1 0x4028 0xbeef003], Inr (Some 0xbeef003))
   \<and> get_page_table_entry guest_pv 0x40805678 0 \<noteq>
       ([], Inr (Some (drop_bit XC_PAGE_SHIFT 0x40805678)))"
proof -
  have "get_page_table_entry guest_pv 0x40805678 0 =
       ([Fetched 4 0x1000 0x2003, Fetched 3 0x2008 0x3003, Fetched 2 0x3020 0x4003,
         Fetched 1 0x4028 0xbeef003], Inr (Some 0xbeef003))"
    by code_simp
  then show ?thesis by (simp add: guest_pv_def XC_PAGE_SHIFT_def)
qed

section \<open>The VM-event monitor: properties\<close>

text \<open>The loop of \<open>read_events\<close>, unfolded once.\<close>

lemma read_events_pending:
  "RING_HAS_UNCONSUMED_REQUESTS m \<Longrightarrow> read_events m = read_events (read_events_body m)"
  by (subst read_events.simps) simp

lemma read_events_drained:
  "\<not> RING_HAS_UNCONSUMED_REQUESTS m \<Longrightarrow> read_events m = m"
  by (subst read_events.simps) simp

text \<open>The monitor only ever adds to its effects.\<close>

lemma read_events_body_effects:
  "\<exists>new. effects (read_events_body m) = effects m @ new"
  by (simp add: read_events_body_def get_request_def put_response_def dispatch_def
      inject_event_def call_on_software_breakpoint_def RING_PUSH_RESPONSES_def Let_def)

lemma read_events_effects:
  "\<exists>new. effects (read_events m) = effects m @ new"
proof (induction m rule: read_events.induct)
  case (1 m)
  show ?case
  proof (cases "RING_HAS_UNCONSUMED_REQUESTS m")
    case True
    from 1 [OF True] obtain later
      where "effects (read_events (read_events_body m)) = effects (read_events_body m) @ later"
      by blast
    moreover obtain new where "effects (read_events_body m) = effects m @ new"
      using read_events_body_effects by blast
    ultimately show ?thesis using True by (simp add: read_events_pending)
  next
    case False
    then show ?thesis by (simp add: read_events_drained)
  qed
qed

text \<open>
  C7. When the request at the consumed cursor has the supported version and the reason
  software breakpoint, the iteration of \<open>read_events\<close> that takes it calls
  \<open>inject_event\<close> for the request's vCPU with vector \<open>X86_TRAP_INT3\<close>, the
  request's trap type and its instruction length, then calls the callback with that
  same request if one is registered, and then puts the response on the ring: the slot
  at the private response cursor holds it, and the cursor is advanced and published.
  The response carries the supported version, the request's vCPU id and reason, and
  the paused bit of its flags. Whatever the rest of the drain does comes after these
  effects.
\<close>

theorem software_breakpoint_dispatch:
  assumes "RING_HAS_UNCONSUMED_REQUESTS m"
    and "req = RING_GET_REQUEST m (req_cons m)"
    and "version req = VM_EVENT_INTERFACE_VERSION"
    and "reason req = VM_EVENT_REASON_SOFTWARE_BREAKPOINT"
  shows
    "read_events m = read_events (read_events_body m)
     \<and> effects (read_events_body m) =
       effects m
       @ [Inject_event (vcpu_id req) X86_TRAP_INT3 (u_software_breakpoint_type req) (- 1)
            (u_software_breakpoint_insn_length req) 0]
       @ (if on_software_breakpoint m then [On_software_breakpoint req] else [])
       @ [Put_response (prepare_response req)]
     \<and> sring_ring (read_events_body m) (RING_SLOT m (rsp_prod_pvt m)) = prepare_response req
     \<and> rsp_prod_pvt (read_events_body m) = rsp_prod_pvt m + 1
     \<and> sring_rsp_prod (read_events_body m) = rsp_prod_pvt m + 1
     \<and> version (prepare_response req) = VM_EVENT_INTERFACE_VERSION
     \<and> vcpu_id (prepare_response req) = vcpu_id req
     \<and> reason (prepare_response req) = reason req
     \<and> flags (prepare_response req) = flags req AND VM_EVENT_FLAG_VCPU_PAUSED
     \<and> (\<exists>later. effects (read_events m) =
           effects m
           @ [Inject_event (vcpu_id req) X86_TRAP_INT3 (u_software_breakpoint_type req) (- 1)
                (u_software_breakpoint_insn_length req) 0]
           @ (if on_software_breakpoint m then [On_software_breakpoint req] else [])
           @ [Put_response (prepare_response req)]
           @ later)"
proof -
  have ne: "VM_EVENT_REASON_SOFTWARE_BREAKPOINT \<noteq> VM_EVENT_REASON_MEM_ACCESS"
    by (simp add: VM_EVENT_REASON_SOFTWARE_BREAKPOINT_def VM_EVENT_REASON_MEM_ACCESS_def)
  have body: "read_events m = read_events (read_events_body m)
     \<and> effects (read_events_body m) =
       effects m
       @ [Inject_event (vcpu_id req) X86_TRAP_INT3 (u_software_breakpoint_type req) (- 1)
            (u_software_breakpoint_insn_length req) 0]
       @ (if on_software_breakpoint m then [On_software_breakpoint req] else [])
       @ [Put_response (prepare_response req)]
     \<and> sring_ring (read_events_body m) (RING_SLOT m (rsp_prod_pvt m)) = prepare_response req
     \<and> rsp_prod_pvt (read_events_body m) = rsp_prod_pvt m + 1
     \<and> sring_rsp_prod (read_events_body m) = rsp_prod_pvt m + 1
     \<and> version (prepare_response req) = VM_EVENT_INTERFACE_VERSION
     \<and> vcpu_id (prepare_response req) = vcpu_id req
     \<and> reason (prepare_response req) = reason req
     \<and> flags (prepare_response req) = flags req AND VM_EVENT_FLAG_VCPU_PAUSED"
    using assms ne
    by (simp add: read_events_pending
        read_events_body_def get_request_def put_response_def dispatch_def
        inject_event_def call_on_software_breakpoint_def RING_PUSH_RESPONSES_def
        RING_SLOT_def RING_GET_REQUEST_def prepare_response_def Let_def)
  obtain later
    where "effects (read_events (read_events_body m)) = effects (read_events_body m) @ later"
    using read_events_effects by blast
  with body have "effects (read_events m) =
           effects m
           @ [Inject_event (vcpu_id req) X86_TRAP_INT3 (u_software_breakpoint_type req) (- 1)
                (u_software_breakpoint_insn_length req) 0]
           @ (if on_software_breakpoint m then [On_software_breakpoint req] else [])
           @ [Put_response (prepare_response req)]
           @ later"
    by simp
  with body show ?thesis by blast
qed

theorem software_breakpoint_dispatch_witness:
  "RING_HAS_UNCONSUMED_REQUESTS monitor_example
   \<and> breakpoint_request = RING_GET_REQUEST monitor_example (req_cons monitor_example)
   \<and> version breakpoint_request = VM_EVENT_INTERFACE_VERSION
   \<and> reason breakpoint_request = VM_EVENT_REASON_SOFTWARE_BREAKPOINT
   \<and> effects (read_events_body monitor_example) =
       [Inject_event 1 3 6 (- 1) 1 0,
        On_software_breakpoint breakpoint_request,
        Put_response (prepare_response breakpoint_request)]
   \<and> effects (read_events monitor_example) =
       [Inject_event 1 3 6 (- 1) 1 0,
        On_software_breakpoint breakpoint_request,
        Put_response (prepare_response breakpoint_request)]"
proof -
  have h1: "breakpoint_request = RING_GET_REQUEST monitor_example (req_cons monitor_example)"
    by (simp add: RING_GET_REQUEST_def RING_SLOT_def monitor_example_def)
  have h2: "version breakpoint_request = VM_EVENT_INTERFACE_VERSION"
    by (simp add: breakpoint_request_def)
  have h3: "reason breakpoint_request = VM_EVENT_REASON_SOFTWARE_BREAKPOINT"
    by (simp add: breakpoint_request_def)
  have pending: "RING_HAS_UNCONSUMED_REQUESTS monitor_example"
    by (simp add: RING_HAS_UNCONSUMED_REQUESTS_def monitor_example_def)
  note concl = software_breakpoint_dispatch [OF pending h1 h2 h3]
  have body: "effects (read_events_body monitor_example) =
       [Inject_event 1 3 6 (- 1) 1 0,
        On_software_breakpoint breakpoint_request,
        Put_response (prepare_response breakpoint_request)]"
    using concl by (simp add: monitor_example_def breakpoint_request_def X86_TRAP_INT3_def)
  have drained: "\<not> RING_HAS_UNCONSUMED_REQUESTS (read_events_body monitor_example)"
    by (simp add: RING_HAS_UNCONSUMED_REQUESTS_def read_events_body_cursors monitor_example_def)
  have "read_events monitor_example = read_events_body monitor_example"
    using pending drained by (simp add: read_events_pending read_events_drained)
  with body pending h1 h2 h3 show ?thesis by simp
qed

text \<open>
  C1, as the code has it: when the request at the consumed cursor has a version other
  than the supported one, the iteration of \<open>read_events\<close> that takes it consumes the
  request and does nothing else: no response is put on the ring (the response cursors
  and the slots stay as they were), no trap is injected and no callback is called.
\<close>

theorem version_mismatch_dropped:
  assumes "RING_HAS_UNCONSUMED_REQUESTS m"
    and "version (RING_GET_REQUEST m (req_cons m)) \<noteq> VM_EVENT_INTERFACE_VERSION"
  shows "read_events m = read_events (read_events_body m)
     \<and> read_events_body m =
         m\<lparr>req_cons := req_cons m + 1, sring_req_event := req_cons m + 2\<rparr>
     \<and> effects (read_events_body m) = effects m
     \<and> rsp_prod_pvt (read_events_body m) = rsp_prod_pvt m
     \<and> sring_rsp_prod (read_events_body m) = sring_rsp_prod m
     \<and> sring_ring (read_events_body m) = sring_ring m"
  using assms by (simp add: read_events_pending read_events_body_def get_request_def Let_def)

theorem version_mismatch_dropped_witness:
  "RING_HAS_UNCONSUMED_REQUESTS monitor_bad_version
   \<and> version (RING_GET_REQUEST monitor_bad_version (req_cons monitor_bad_version))
     \<noteq> VM_EVENT_INTERFACE_VERSION
   \<and> effects (read_events_body monitor_bad_version) = []
   \<and> req_cons (read_events_body monitor_bad_version) = 1
   \<and> rsp_prod_pvt (read_events_body monitor_bad_version) = 0"
proof -
  have h: "version (RING_GET_REQUEST monitor_bad_version (req_cons monitor_bad_version))
     \<noteq> VM_EVENT_INTERFACE_VERSION"
    by (simp add: RING_GET_REQUEST_def RING_SLOT_def monitor_bad_version_def monitor_example_def)
  have pending: "RING_HAS_UNCONSUMED_REQUESTS monitor_bad_version"
    by (simp add: RING_HAS_UNCONSUMED_REQUESTS_def monitor_bad_version_def monitor_example_def)
  from version_mismatch_dropped [OF pending h] pending h show ?thesis
    by (simp add: monitor_bad_version_def monitor_example_def)
qed

text \<open>
  C1 as claimed, one response for such a request, fails: draining a ring whose only
  pending request has another version ends with no response submitted.
\<close>

theorem version_mismatch_no_response_counterexample:
  "RING_HAS_UNCONSUMED_REQUESTS monitor_bad_version
   \<and> version (RING_GET_REQUEST monitor_bad_version (req_cons monitor_bad_version))
       \<noteq> VM_EVENT_INTERFACE_VERSION
   \<and> \<not> RING_HAS_UNCONSUMED_REQUESTS (read_events monitor_bad_version)
   \<and> effects (read_events monitor_bad_version) = []
   \<and> rsp_prod_pvt (read_events monitor_bad_version) = rsp_prod_pvt monitor_bad_version
   \<and> sring_rsp_prod (read_events monitor_bad_version) = sring_rsp_prod monitor_bad_version"
proof -
  have pending: "RING_HAS_UNCONSUMED_REQUESTS monitor_bad_version"
    by (simp add: RING_HAS_UNCONSUMED_REQUESTS_def monitor_bad_version_def monitor_example_def)
  have h: "version (RING_GET_REQUEST monitor_bad_version (req_cons monitor_bad_version))
     \<noteq> VM_EVENT_INTERFACE_VERSION"
    by (simp add: RING_GET_REQUEST_def RING_SLOT_def monitor_bad_version_def monitor_example_def)
  have body: "read_events_body monitor_bad_version =
      monitor_bad_version\<lparr>req_cons := 1, sring_req_event := 2\<rparr>"
    using h by (simp add: read_events_body_def get_request_def Let_def)
       (simp add: monitor_bad_version_def monitor_example_def)
  have drained: "\<not> RING_HAS_UNCONSUMED_REQUESTS (read_events_body monitor_bad_version)"
    unfolding body
    by (simp add: RING_HAS_UNCONSUMED_REQUESTS_def monitor_bad_version_def monitor_example_def)
  have "read_events monitor_bad_version = read_events_body monitor_bad_version"
    using pending drained by (simp add: read_events_pending read_events_drained)
  then show ?thesis
    using pending h drained unfolding body
    by (simp add: monitor_bad_version_def monitor_example_def)
qed

section \<open>Register contexts of an HVM guest: properties\<close>

text \<open>
  \<open>set_cpu_context\<close> never completes: whatever it is given, it ends in an exception,
  at the latest in \<open>set_cpu_context_raw\<close>, which is not implemented.
\<close>

lemma set_cpu_context_raw_unimplemented:
  "snd (set_cpu_context env regs v) \<noteq> Inr ()"
  by (simp add: set_cpu_context_def set_cpu_context_raw_def Let_def
      split: prod.split sum.split)

text \<open>
  C8, as the code has it: \<open>set_cpu_context\<close> reads the raw context and converts the
  registers into it, and writes nothing back. When the read succeeds with
  \<open>old_context\<close>, \<open>new_context\<close> is \<open>convert_regs_to_hvm regs old_context\<close>, in
  which every field that the conversion does not name (here \<open>cr0\<close>, \<open>cr2\<close>,
  \<open>cr4\<close>, \<open>es_base\<close>, \<open>shadow_gs\<close>, \<open>msr_efer\<close> and the rest of the structure)
  is the one of \<open>old_context\<close>, and the general-purpose registers, \<open>rip\<close>,
  \<open>rflags\<close>, the five segment bases and \<open>cr3\<close> are those of the register file;
  the operation then ends in an exception, the read being the first thing it did on
  the control channel.
\<close>

theorem set_cpu_context_converts_then_fails:
  assumes "get_cpu_context_raw env v = (calls, Inr old_context)"
  shows "new_context env (Any_X86_64 regs) v =
       (calls, Inr (convert_regs_to_hvm regs old_context))
     \<and> hvm_hw_cpu.cr0 (convert_regs_to_hvm regs old_context) = hvm_hw_cpu.cr0 old_context
     \<and> hvm_hw_cpu.cr2 (convert_regs_to_hvm regs old_context) = hvm_hw_cpu.cr2 old_context
     \<and> hvm_hw_cpu.cr4 (convert_regs_to_hvm regs old_context) = hvm_hw_cpu.cr4 old_context
     \<and> hvm_hw_cpu.es_base (convert_regs_to_hvm regs old_context) = hvm_hw_cpu.es_base old_context
     \<and> hvm_hw_cpu.shadow_gs (convert_regs_to_hvm regs old_context) = hvm_hw_cpu.shadow_gs old_context
     \<and> hvm_hw_cpu.msr_efer (convert_regs_to_hvm regs old_context) = hvm_hw_cpu.msr_efer old_context
     \<and> hvm_hw_cpu.more (convert_regs_to_hvm regs old_context) = hvm_hw_cpu.more old_context
     \<and> hvm_hw_cpu.rax (convert_regs_to_hvm regs old_context) = RegistersX86_64.rax regs
     \<and> hvm_hw_cpu.rbx (convert_regs_to_hvm regs old_context) = RegistersX86_64.rbx regs
     \<and> hvm_hw_cpu.rcx (convert_regs_to_hvm regs old_context) = RegistersX86_64.rcx regs
     \<and> hvm_hw_cpu.rdx (convert_regs_to_hvm regs old_context) = RegistersX86_64.rdx regs
     \<and> hvm_hw_cpu.rsp (convert_regs_to_hvm regs old_context) = RegistersX86_64.rsp regs
     \<and> hvm_hw_cpu.rbp (convert_regs_to_hvm regs old_context) = RegistersX86_64.rbp regs
     \<and> hvm_hw_cpu.rsi (convert_regs_to_hvm regs old_context) = RegistersX86_64.rsi regs
     \<and> hvm_hw_cpu.rdi (convert_regs_to_hvm regs old_context) = RegistersX86_64.rdi regs
     \<and> hvm_hw_cpu.r8 (convert_regs_to_hvm regs old_context) = RegistersX86_64.r8 regs
     \<and> hvm_hw_cpu.r9 (convert_regs_to_hvm regs old_context) = RegistersX86_64.r9 regs
     \<and> hvm_hw_cpu.r10 (convert_regs_to_hvm regs old_context) = RegistersX86_64.r10 regs
     \<and> hvm_hw_cpu.r11 (convert_regs_to_hvm regs old_context) = RegistersX86_64.r11 regs
     \<and> hvm_hw_cpu.r12 (convert_regs_to_hvm regs old_context) = RegistersX86_64.r12 regs
     \<and> hvm_hw_cpu.r13 (convert_regs_to_hvm regs old_context) = RegistersX86_64.r13 regs
     \<and> hvm_hw_cpu.r14 (convert_regs_to_hvm regs old_context) = RegistersX86_64.r14 regs
     \<and> hvm_hw_cpu.r15 (convert_regs_to_hvm regs old_context) = RegistersX86_64.r15 regs
     \<and> hvm_hw_cpu.rip (convert_regs_to_hvm regs old_context) = RegistersX86_64.rip regs
     \<and> hvm_hw_cpu.rflags (convert_regs_to_hvm regs old_context) = RegistersX86_64.rflags regs
     \<and> hvm_hw_cpu.fs_base (convert_regs_to_hvm regs old_context) = RegistersX86_64.fs regs
     \<and> hvm_hw_cpu.gs_base (convert_regs_to_hvm regs old_context) = RegistersX86_64.gs regs
     \<and> hvm_hw_cpu.cs_base (convert_regs_to_hvm regs old_context) = RegistersX86_64.cs regs
     \<and> hvm_hw_cpu.ds_base (convert_regs_to_hvm regs old_context) = RegistersX86_64.ds regs
     \<and> hvm_hw_cpu.ss_base (convert_regs_to_hvm regs old_context) = RegistersX86_64.ss regs
     \<and> hvm_hw_cpu.cr3 (convert_regs_to_hvm regs old_context) = RegistersX86_64.cr3 regs
     \<and> (\<exists>more err. set_cpu_context env (Any_X86_64 regs) v = (calls @ more, Inl err))"
proof -
  have fails: "\<exists>more err. set_cpu_context env (Any_X86_64 regs) v = (calls @ more, Inl err)"
    using assms
    by (simp add: set_cpu_context_def new_context_def set_cpu_context_raw_def Let_def
        split: prod.split)
  show ?thesis
    using assms fails by (simp add: new_context_def convert_regs_to_hvm_def)
qed

theorem set_cpu_context_converts_then_fails_witness:
  "get_cpu_context_raw hvm_env_example 0 = ([Hvm_getcontext_partial 0], Inr hvm_context_example)
   \<and> new_context hvm_env_example (Any_X86_64 regs_example) 0 =
       ([Hvm_getcontext_partial 0],
        Inr \<lparr>hvm_hw_cpu.rax = 0x200, rbx = 0x201, rcx = 0x202, rdx = 0x203,
              rbp = 0x205, rsi = 0x206, rdi = 0x207, rsp = 0x204, r8 = 0x208,
              r9 = 0x209, r10 = 0x20a, r11 = 0x20b, r12 = 0x20c, r13 = 0x20d,
              r14 = 0x20e, r15 = 0x20f, rip = 0x210, rflags = 0x211, cr0 = 0x80050033,
              cr2 = 0x113, cr3 = 0x217, cr4 = 0x6f0, cs_base = 0x214, ds_base = 0x215,
              es_base = 0x118, fs_base = 0x212, gs_base = 0x213, ss_base = 0x216,
              shadow_gs = 0x11c, msr_efer = 0xd01\<rparr>)
   \<and> set_cpu_context hvm_env_example
         (Any_X86_64 regs_example :: (unit, RegistersX86_64) RegistersX86Any) 0 =
       ([Hvm_getcontext_partial 0, Hvm_getcontext_partial 0],
        Inl (RuntimeError ''Not yet implemented!''))"

proof -
  have h: "get_cpu_context_raw hvm_env_example 0 =
             ([Hvm_getcontext_partial 0], Inr hvm_context_example)"
    by (simp add: get_cpu_context_raw_def hvm_env_example_def)
  have fails: "set_cpu_context hvm_env_example
         (Any_X86_64 regs_example :: (unit, RegistersX86_64) RegistersX86Any) 0 =
       ([Hvm_getcontext_partial 0, Hvm_getcontext_partial 0],
        Inl (RuntimeError ''Not yet implemented!''))"
    by (simp add: set_cpu_context_def new_context_def get_cpu_context_raw_def
        set_cpu_context_raw_def hvm_env_example_def)
  from set_cpu_context_converts_then_fails [OF h, of regs_example]
  have "new_context hvm_env_example (Any_X86_64 regs_example) 0 =
       ([Hvm_getcontext_partial 0], Inr (convert_regs_to_hvm regs_example hvm_context_example))"
    by blast
  then have built: "new_context hvm_env_example (Any_X86_64 regs_example) 0 =
       ([Hvm_getcontext_partial 0],
        Inr \<lparr>hvm_hw_cpu.rax = 0x200, rbx = 0x201, rcx = 0x202, rdx = 0x203,
              rbp = 0x205, rsi = 0x206, rdi = 0x207, rsp = 0x204, r8 = 0x208,
              r9 = 0x209, r10 = 0x20a, r11 = 0x20b, r12 = 0x20c, r13 = 0x20d,
              r14 = 0x20e, r15 = 0x20f, rip = 0x210, rflags = 0x211, cr0 = 0x80050033,
              cr2 = 0x113, cr3 = 0x217, cr4 = 0x6f0, cs_base = 0x214, ds_base = 0x215,
              es_base = 0x118, fs_base = 0x212, gs_base = 0x213, ss_base = 0x216,
              shadow_gs = 0x11c, msr_efer = 0xd01\<rparr>)"
    by (simp add: convert_regs_to_hvm_def hvm_context_example_def regs_example_def)
  show ?thesis by (intro conjI h built fails)
qed

text \<open>
  C8 as claimed, a read-modify-write, fails: on the example channel \<open>set_cpu_context\<close>
  reads the context of vCPU 0 and ends in the exception of \<open>set_cpu_context_raw\<close>,
  the same for any two register files, and nothing is written.
\<close>

theorem set_cpu_context_no_write_counterexample:
  "get_cpu_context_raw hvm_env_example 0 =
     ([Hvm_getcontext_partial 0], Inr hvm_context_example)
   \<and> RegistersX86_64.rax regs_example \<noteq> hvm_hw_cpu.rax hvm_context_example
   \<and> set_cpu_context hvm_env_example
         (Any_X86_64 regs_example :: (unit, RegistersX86_64) RegistersX86Any) 0 =
       ([Hvm_getcontext_partial 0, Hvm_getcontext_partial 0],
        Inl (RuntimeError ''Not yet implemented!''))
   \<and> set_cpu_context hvm_env_example
         (Any_X86_64 regs_default_example :: (unit, RegistersX86_64) RegistersX86Any) 0 =
       ([Hvm_getcontext_partial 0, Hvm_getcontext_partial 0],
        Inl (RuntimeError ''Not yet implemented!''))"
  by (simp add: set_cpu_context_def new_context_def get_cpu_context_raw_def
      set_cpu_context_raw_def hvm_env_example_def hvm_context_example_def regs_example_def)

text \<open>
  C10. \<open>get_cpu_context\<close> never returns the 32-bit alternative, and returns the
  64-bit one whenever the hypervisor call for the raw context succeeds;
  \<open>set_cpu_context\<close> given the 32-bit alternative fails in \<open>std::get\<close> before any
  call on the control channel, and given the 64-bit one goes on to the control channel.
\<close>

theorem register_context_is_64_bit:
  "(\<forall>regs32. snd (get_cpu_context env regs_default v) \<noteq> Inr (Any_X86_32 regs32))
   \<and> (fst (xc_domain_hvm_getcontext_partial env (ucast v)) = 0 \<longrightarrow>
        (\<exists>regs64. get_cpu_context env regs_default v =
                    ([Hvm_getcontext_partial (ucast v)], Inr (Any_X86_64 regs64))))
   \<and> set_cpu_context env (Any_X86_32 regs32) v = ([], Inl BadVariantAccess)
   \<and> fst (set_cpu_context env (Any_X86_64 regs64) v) \<noteq> []"
  by (auto simp add: get_cpu_context_def get_cpu_context_raw_def convert_regs_from_hvm_def
      set_cpu_context_def new_context_def Let_def split: prod.splits sum.splits if_splits)

theorem register_context_is_64_bit_witness:
  "fst (xc_domain_hvm_getcontext_partial hvm_env_example (ucast (0 :: 32 word))) = 0
   \<and> get_cpu_context hvm_env_example regs_default_example 0 =
       ([Hvm_getcontext_partial 0],
        Inr (Any_X86_64
          \<lparr>RegistersX86_64.rax = 0x100, rbx = 0x101, rcx = 0x102, rdx = 0x103,
            rsp = 0x107, rbp = 0x104, rsi = 0x105, rdi = 0x106, r8 = 0x108, r9 = 0x109,
            r10 = 0x10a, r11 = 0x10b, r12 = 0x10c, r13 = 0x10d, r14 = 0x10e,
            r15 = 0x10f, rip = 0x110, rflags = 0x111, fs = 0x119, gs = 0x11a,
            cs = 0x116, ds = 0x117, ss = 0x11b, cr3 = 0x114\<rparr>))
   \<and> set_cpu_context hvm_env_example (Any_X86_32 ()) 0 = ([], Inl BadVariantAccess)"
proof -
  have h: "fst (xc_domain_hvm_getcontext_partial hvm_env_example (ucast (0 :: 32 word))) = 0"
    by (simp add: hvm_env_example_def)
  have "get_cpu_context hvm_env_example regs_default_example 0 =
       ([Hvm_getcontext_partial 0],
        Inr (Any_X86_64
          \<lparr>RegistersX86_64.rax = 0x100, rbx = 0x101, rcx = 0x102, rdx = 0x103,
            rsp = 0x107, rbp = 0x104, rsi = 0x105, rdi = 0x106, r8 = 0x108, r9 = 0x109,
            r10 = 0x10a, r11 = 0x10b, r12 = 0x10c, r13 = 0x10d, r14 = 0x10e,
            r15 = 0x10f, rip = 0x110, rflags = 0x111, fs = 0x119, gs = 0x11a,
            cs = 0x116, ds = 0x117, ss = 0x11b, cr3 = 0x114\<rparr>))"
    by (simp add: get_cpu_context_def get_cpu_context_raw_def convert_regs_from_hvm_def
        hvm_env_example_def hvm_context_example_def regs_default_example_def)
  with register_context_is_64_bit
         [of hvm_env_example regs_default_example 0 "()" regs_example] h
  show ?thesis by blast
qed

end
